theory Spec2Isabelle
  imports Main
begin

section \<open>The compiler worker of cli/js/compiler.ts\<close>

text \<open>
  The message handler installed by \<open>compilerMain\<close> receives one \<open>CompilerRequest\<close>,
  drives the TypeScript engine and the helpers of the sibling modules, posts its result
  with \<open>postMessage\<close> and closes the worker. The handler is embedded as a function from
  the request to a run: the sequence of engine calls and worker effects, in program order,
  and the error that stopped it, if one did. The engine (\<open>ts.*\<close>) and the constants
  and helpers imported from modules outside this file are parameters, collected in the
  record \<open>env\<close>; every statement below holds for all of their values.
\<close>

subsection \<open>Values crossing the message boundary\<close>

text \<open>
  An object that the handler receives and iterates over (\<open>sources\<close>) is the list of its
  own enumerable properties in the order in which \<open>Object.entries\<close> yields them. The keys
  of an object are distinct; the functions below are defined on every list.

  An object that the handler builds from \<open>{}\<close> by assignments and then posts is the map
  of its own properties: a message carries the own properties of an object and nothing
  of its prototype. Compiler options are only ever merged and read by key, so they are
  maps as well.
\<close>

type_synonym 'v entries = "(string \<times> 'v) list"

type_synonym 'v object = "string \<rightharpoonup> 'v"

type_synonym CompilerOptions = "string \<rightharpoonup> string"

text \<open>
  \<open>obj[k] = v\<close> on an object created as \<open>{}\<close>. The key \<open>__proto__\<close> names the accessor
  that every such object inherits from \<open>Object.prototype\<close>: the assignment calls its
  setter, which replaces the prototype of \<open>obj\<close> when \<open>v\<close> is an object and does nothing
  when \<open>v\<close> is a string. In both cases no own property is added. Every other key
  becomes an own property with the value \<open>v\<close>.
\<close>

definition setProperty :: "string \<Rightarrow> 'v \<Rightarrow> 'v object \<Rightarrow> 'v object" where
  "setProperty k v obj = (if k = ''__proto__'' then obj else obj(k \<mapsto> v))"

datatype CompilerRequestType = Compile | RuntimeCompile | RuntimeTranspile

text \<open>
  The three request interfaces, fields in the order of their declarations
  (optional fields are options):
  \<^item> \<open>CompilerRequestCompile rootNames configPath config bundle outFile\<close>
  \<^item> \<open>CompilerRequestRuntimeCompile rootName sources bundle options\<close>
  \<^item> \<open>CompilerRequestRuntimeTranspile sources options\<close>

  The type tag of a message is a number that the handler inspects at run time;
  \<open>CompilerRequestOther t\<close> is a message whose tag \<open>t\<close> selects none of the three cases
  of the \<open>switch\<close>.
\<close>

datatype CompilerRequest =
    CompilerRequestCompile "string list" "string option" "string option" "bool option"
      "string option"
  | CompilerRequestRuntimeCompile string "string entries option" "bool option" "string option"
  | CompilerRequestRuntimeTranspile "string entries" "string option"
  | CompilerRequestOther int

datatype DiagnosticCategory = Warning | Error | Suggestion | Message

text \<open>A diagnostic as the engine reports it (\<open>ts.Diagnostic\<close>).\<close>

record ts_Diagnostic =
  code :: int
  category :: DiagnosticCategory
  messageText :: string
  fileName :: "string option"
  start :: "nat option"

text \<open>The wire form: a \<open>Diagnostic\<close> is an ordered sequence of items.\<close>

record DiagnosticItem =
  message :: string
  itemCategory :: DiagnosticCategory
  itemCode :: int
  scriptResourceName :: "string option"
  startPosition :: "nat option"

record Diagnostic =
  items :: "DiagnosticItem list"

text \<open>\<open>TranspileOnlyResult\<close>: \<open>{ source: string; map?: string }\<close>.\<close>

record TranspileOnlyResult =
  source :: string
  map_text :: "string option"

text \<open>
  The second element of a \<open>RuntimeCompile\<close> response is \<open>state.emitBundle\<close> or
  \<open>state.emitMap\<close>; both fields of the state are optional.
\<close>

datatype emitted =
    EmitBundleOut "string option"
  | EmitMapOut "string object option"

text \<open>
  What \<open>postMessage\<close> is called with: a \<open>CompileResult\<close>
  \<open>{ emitSkipped, diagnostics? }\<close>, the two-element array of a \<open>RuntimeCompile\<close>, or
  the record of a \<open>RuntimeTranspile\<close>.
\<close>

datatype response =
    CompileResult bool "Diagnostic option"
  | RuntimeCompileResult "DiagnosticItem list option" emitted
  | RuntimeTranspileResult "TranspileOnlyResult object"

subsection \<open>The engine and the imported helpers\<close>

record Host =
  host_options :: CompilerOptions

record Program =
  programRootNames :: "string list"
  programOptions :: CompilerOptions
  rootModule :: "string option"

record EmitResult =
  emitSkipped :: bool
  diagnostics :: "ts_Diagnostic list"

record ConfigureResponse =
  ignoredOptions :: "string list option"
  configDiagnostics :: "ts_Diagnostic list option"

record TranspileOutput =
  outputText :: string
  sourceMapText :: "string option"

text \<open>
  The parameters. The three helpers of module resolution (\<open>processImports\<close>, whose
  promise the handler awaits, \<open>processLocalImports\<close>, and the host's resolution of one
  module name, \<open>resolveSpecifier\<close>) either return or fail with a resolution error
  (\<open>Inl\<close>, with its message): the handler has no \<open>try\<close>, so the error leaves it. The
  other helpers and the engine are taken as returning. \<open>emit\<close> returns the engine's
  \<open>EmitResult\<close> together with the \<open>writeFile\<close> calls (file name and data) the engine
  makes on the host while emitting.
\<close>

record env =
  processImports :: "(string \<times> string) list \<Rightarrow> string + string list"
  processLocalImports :: "string entries \<Rightarrow> (string \<times> string) list \<Rightarrow> string + string list"
  resolveSpecifier :: "string \<Rightarrow> string + string"
  newHost :: "bool option \<Rightarrow> Host"
  configure :: "Host \<Rightarrow> string \<Rightarrow> string \<Rightarrow> ConfigureResponse \<times> Host"
  processConfigureResponse :: "ConfigureResponse \<Rightarrow> string \<Rightarrow> ts_Diagnostic list option"
  getPreEmitDiagnostics :: "Program \<Rightarrow> ts_Diagnostic list"
  emit :: "Program \<Rightarrow> EmitResult \<times> (string \<times> string) list"
  transpileModule :: "string \<Rightarrow> string \<Rightarrow> CompilerOptions \<Rightarrow> TranspileOutput"
  convertCompilerOptions :: "string \<Rightarrow> CompilerOptions"
  ignoredDiagnostics :: "int list"
  defaultRuntimeCompileOptions :: CompilerOptions
  defaultBundlerOptions :: CompilerOptions
  defaultTranspileOptions :: CompilerOptions

subsection \<open>JavaScript truthiness and indexing\<close>

text \<open>
  \<open>if (bundle)\<close> on an optional boolean holds for \<open>true\<close> only; \<open>xs[0]\<close> is
  \<open>undefined\<close> on an empty array. A test such as \<open>if (options)\<close> on an optional
  string holds for a non-empty string only; it is written out where it occurs.
\<close>

definition truthy_flag :: "bool option \<Rightarrow> bool" where
  "truthy_flag b = (b = Some True)"

definition index0 :: "'a list \<Rightarrow> 'a option" where
  "index0 xs = (case xs of [] \<Rightarrow> None | x # _ \<Rightarrow> Some x)"

text \<open>\<open>Object.assign(target, ...sources)\<close> on options: per key, the last source wins.\<close>

definition Object_assign :: "CompilerOptions \<Rightarrow> CompilerOptions list \<Rightarrow> CompilerOptions" where
  "Object_assign target srcs = foldl (++) target srcs"

subsection \<open>Helpers of the sibling modules\<close>

text \<open>
  Modelled from the spec: \<open>Host.mergeOptions\<close> and \<open>Host.getCompilationSettings\<close>
  (compiler_host.ts) are not among the sources. Section 4.4: a left-to-right merge over
  an ordered list of option fragments, later fragments overriding earlier ones on a
  per-key basis, with no deep merging. The merge lands in the host's own options, which
  \<open>getCompilationSettings\<close> hands to the engine.
\<close>

definition mergeOptions :: "Host \<Rightarrow> CompilerOptions list \<Rightarrow> Host" where
  "mergeOptions host fragments =
     host\<lparr>host_options := Object_assign (host_options host) fragments\<rparr>"

definition getCompilationSettings :: "Host \<Rightarrow> CompilerOptions" where
  "getCompilationSettings host = host_options host"

text \<open>
  Modelled from the spec: \<open>resolveModules\<close> (compiler_imports.ts) is not among the
  sources. Section 4.1: it maps a bare root name to its canonical resolved form without
  fetching or expanding imports; a failure to resolve is an error.
\<close>

fun resolveModules :: "env \<Rightarrow> string list \<Rightarrow> string + string list" where
  "resolveModules e [] = Inr []"
| "resolveModules e (specifier # specifiers) =
     (case resolveSpecifier e specifier of
        Inl err \<Rightarrow> Inl err
      | Inr resolved \<Rightarrow>
          (case resolveModules e specifiers of
             Inl err \<Rightarrow> Inl err
           | Inr rest \<Rightarrow> Inr (resolved # rest)))"

text \<open>
  Modelled from the spec: \<open>fromTypeScriptDiagnostic\<close> (diagnostics_util.ts) is not
  among the sources. Section 4.3: every engine diagnostic maps to one wire item (message
  text, category, code, file and position when available), in the engine's order.
\<close>

definition parseDiagnostic :: "ts_Diagnostic \<Rightarrow> DiagnosticItem" where
  "parseDiagnostic d =
     \<lparr>message = messageText d, itemCategory = category d, itemCode = code d,
      scriptResourceName = fileName d, startPosition = start d\<rparr>"

definition fromTypeScriptDiagnostic :: "ts_Diagnostic list \<Rightarrow> Diagnostic" where
  "fromTypeScriptDiagnostic ds = \<lparr>items = map parseDiagnostic ds\<rparr>"

text \<open>
  \<open>ts.createProgram({ rootNames, options, host, oldProgram })\<close>: the program is
  identified by what it is created from. Modelled from the spec: \<open>setRootExports\<close>
  (compiler_bundler.ts) is not among the sources. Section 4.5: before the emit of a
  bundle the program is enriched with the root exports of the given module.
\<close>

definition createProgram :: "string list \<Rightarrow> CompilerOptions \<Rightarrow> Program" where
  "createProgram rootNames options' =
     \<lparr>programRootNames = rootNames, programOptions = options', rootModule = None\<rparr>"

definition setRootExports :: "Program \<Rightarrow> string option \<Rightarrow> Program" where
  "setRootExports program root = program\<lparr>rootModule := root\<rparr>"

subsection \<open>The write-file state\<close>

text \<open>
  \<open>WriteFileState\<close> as the two object literals of the handler build it; the back
  reference \<open>host\<close> is left out.
\<close>

record WriteFileState =
  st_type :: CompilerRequestType
  st_bundle :: "bool option"
  st_outFile :: "string option"
  st_rootNames :: "string list"
  st_sources :: "string entries option"
  emitMap :: "string object option"
  emitBundle :: "string option"

text \<open>
  Modelled from the spec: \<open>createWriteFile\<close> (compiler_util.ts) is not among the
  sources. Section 4.2, the policy table: for \<open>Compile\<close> every artifact leaves the worker
  (host cache, output file or standard output) and the state stays as it is; for
  \<open>RuntimeCompile\<close> without bundle \<open>emitMap[fileName] = data\<close>; with bundle the data is
  accumulated into \<open>emitBundle\<close>.
\<close>

definition writeFile :: "WriteFileState \<Rightarrow> string \<times> string \<Rightarrow> WriteFileState" where
  "writeFile state w =
     (case w of (name, data) \<Rightarrow>
        (case st_type state of
           Compile \<Rightarrow> state
         | _ \<Rightarrow>
            if truthy_flag (st_bundle state)
            then state\<lparr>emitBundle :=
                   Some (case emitBundle state of None \<Rightarrow> data | Some b \<Rightarrow> b @ data)\<rparr>
            else state\<lparr>emitMap := map_option (setProperty name data) (emitMap state)\<rparr>))"

subsection \<open>Runs\<close>

text \<open>
  What stops the handler before its end: a failed \<open>assert\<close>, which throws an error
  with the given message (\<open>assert\<close> when none is given), or the error of a module
  resolution.
\<close>

datatype fatal = AssertionError string | ResolutionError string

text \<open>
  The events of a run: the calls into the engine and the effects on the worker, in
  program order. \<open>Log\<close> and \<open>Warn\<close> (\<open>util.log\<close>, \<open>console.warn\<close>) carry the fixed
  text of the message, without the data interpolated into it; \<open>LogUnhandled t\<close> is the
  log of the \<open>default\<close> branch for the type tag \<open>t\<close>.
\<close>

datatype event =
    Log string
  | LogUnhandled int
  | Warn string
  | Configure string
  | CreateProgram
  | SetRootExports
  | GetPreEmitDiagnostics
  | Emit
  | TranspileModule string
  | PostMessage response
  | WorkerClose

record run =
  trace :: "event list"
  failure :: "fatal option"

text \<open>The responses posted during a run, in order.\<close>

fun responses :: "event list \<Rightarrow> response list" where
  "responses [] = []"
| "responses (PostMessage r # es) = r # responses es"
| "responses (e # es) = responses es"

subsection \<open>The \<open>Compile\<close> case (lines 95 to 180)\<close>

text \<open>Lines 105 to 107: the awaited resolution of the root modules.\<close>

definition compileRoots :: "env \<Rightarrow> string list \<Rightarrow> string + string list" where
  "compileRoots e rootNames =
     processImports e (map (\<lambda>rootName. (rootName, rootName)) rootNames)"

text \<open>\<open>.filter(({ code }) => !ignoredDiagnostics.includes(code))\<close>\<close>

definition filterIgnored :: "env \<Rightarrow> ts_Diagnostic list \<Rightarrow> ts_Diagnostic list" where
  "filterIgnored e ds = filter (\<lambda>d. code d \<notin> set (ignoredDiagnostics e)) ds"

text \<open>
  Lines 125 to 132: the host is constructed, and if \<open>config && config.length &&
  configPath\<close> the configuration is parsed. The result is the value of \<open>diagnostics\<close>
  after the step (\<open>None\<close> is \<open>undefined\<close>) and the host.
\<close>

definition configureStep ::
  "env \<Rightarrow> bool option \<Rightarrow> string option \<Rightarrow> string option
     \<Rightarrow> ts_Diagnostic list option \<times> Host" where
  "configureStep e bundle config configPath =
     (case (config, configPath) of
        (Some c, Some p) \<Rightarrow>
          if c \<noteq> [] \<and> p \<noteq> []
          then (case configure e (newHost e bundle) p c of
                  (configResult, host) \<Rightarrow> (processConfigureResponse e configResult p, host))
          else (None, newHost e bundle)
      | _ \<Rightarrow> (None, newHost e bundle))"

definition configureEvents :: "string option \<Rightarrow> string option \<Rightarrow> event list" where
  "configureEvents config configPath =
     (case (config, configPath) of
        (Some c, Some p) \<Rightarrow> if c \<noteq> [] \<and> p \<noteq> [] then [Configure p] else []
      | _ \<Rightarrow> [])"

text \<open>Lines 138 to 148: the program and its filtered pre-emit diagnostics.\<close>

definition compileProgram ::
  "env \<Rightarrow> string list \<Rightarrow> string option \<Rightarrow> string option \<Rightarrow> bool option \<Rightarrow> Program" where
  "compileProgram e rootNames configPath config bundle =
     createProgram rootNames
       (getCompilationSettings (snd (configureStep e bundle config configPath)))"

definition compileDiagnostics ::
  "env \<Rightarrow> string list \<Rightarrow> string option \<Rightarrow> string option \<Rightarrow> bool option
     \<Rightarrow> ts_Diagnostic list" where
  "compileDiagnostics e rootNames configPath config bundle =
     filterIgnored e
       (getPreEmitDiagnostics e (compileProgram e rootNames configPath config bundle))"

text \<open>
  Lines 152 to 158: the program that is emitted, given the resolved root modules.
\<close>

definition compileEmitted ::
  "env \<Rightarrow> string list \<Rightarrow> string option \<Rightarrow> string option \<Rightarrow> bool option \<Rightarrow> string list
     \<Rightarrow> Program" where
  "compileEmitted e rootNames configPath config bundle resolvedRootModules =
     (let program = compileProgram e rootNames configPath config bundle
      in if truthy_flag bundle then setRootExports program (index0 resolvedRootModules)
         else program)"

text \<open>Lines 167 to 178: the result is built and posted.\<close>

definition compileRespond :: "bool \<Rightarrow> ts_Diagnostic list \<Rightarrow> event list" where
  "compileRespond skipped ds =
     [PostMessage (CompileResult skipped
        (if ds \<noteq> [] then Some (fromTypeScriptDiagnostic ds) else None)),
      Log ''<<< compile end'']"

text \<open>
  Lines 137 to 165, entered when the configuration step left no diagnostics. The
  assertion of line 154 stops the run; nothing after it is reached.
\<close>

definition compileBuild ::
  "env \<Rightarrow> string list \<Rightarrow> string option \<Rightarrow> string option \<Rightarrow> bool option \<Rightarrow> string option
     \<Rightarrow> string list \<Rightarrow> run" where
  "compileBuild e rootNames configPath config bundle outFile resolvedRootModules =
     (let state = \<lparr>st_type = Compile, st_bundle = bundle, st_outFile = outFile,
                   st_rootNames = rootNames, st_sources = None,
                   emitMap = None, emitBundle = None\<rparr>;
          built = Log ''>>> compile start'' # configureEvents config configPath
                    @ [CreateProgram, GetPreEmitDiagnostics];
          diags = compileDiagnostics e rootNames configPath config bundle
      in if diags = [] then
           (if truthy_flag bundle \<and> length resolvedRootModules \<noteq> 1
            then \<lparr>trace = built, failure = Some (AssertionError ''assert'')\<rparr>
            else
              (case emit e (compileEmitted e rootNames configPath config bundle
                              resolvedRootModules) of
                 (emitResult, written) \<Rightarrow>
                   (let state' = foldl writeFile state written
                    in \<lparr>trace = built
                           @ (if truthy_flag bundle then [Warn ''Bundling'', SetRootExports] else [])
                           @ [Emit]
                           @ compileRespond (emitSkipped emitResult) (diagnostics emitResult),
                        failure = None\<rparr>)))
         else \<lparr>trace = built @ compileRespond True diags, failure = None\<rparr>)"

text \<open>
  The case from line 109 on, after the resolution of the root modules has returned.
\<close>

definition compileResolved ::
  "env \<Rightarrow> string list \<Rightarrow> string option \<Rightarrow> string option \<Rightarrow> bool option \<Rightarrow> string option
     \<Rightarrow> string list \<Rightarrow> run" where
  "compileResolved e rootNames configPath config bundle outFile resolvedRootModules =
     (case fst (configureStep e bundle config configPath) of
        None \<Rightarrow> compileBuild e rootNames configPath config bundle outFile resolvedRootModules
      | Some [] \<Rightarrow> compileBuild e rootNames configPath config bundle outFile resolvedRootModules
      | Some ds \<Rightarrow>
          \<lparr>trace = Log ''>>> compile start'' # configureEvents config configPath
                     @ compileRespond True ds,
           failure = None\<rparr>)"

text \<open>
  The whole case. A rejected \<open>await processImports\<close> (line 105) leaves the handler
  after the first log.
\<close>

definition handleCompile ::
  "env \<Rightarrow> string list \<Rightarrow> string option \<Rightarrow> string option \<Rightarrow> bool option \<Rightarrow> string option
     \<Rightarrow> run" where
  "handleCompile e rootNames configPath config bundle outFile =
     (case compileRoots e rootNames of
        Inl err \<Rightarrow> \<lparr>trace = [Log ''>>> compile start''], failure = Some (ResolutionError err)\<rparr>
      | Inr resolvedRootModules \<Rightarrow>
          compileResolved e rootNames configPath config bundle outFile resolvedRootModules)"

subsection \<open>The \<open>RuntimeCompile\<close> case (lines 181 to 259)\<close>

text \<open>
  Lines 193 to 199: the root names of the program. \<open>resolveModules([rootName])\<close> has
  one element, read by \<open>[0]\<close>.
\<close>

definition runtimeRootNames ::
  "env \<Rightarrow> string \<Rightarrow> string entries option \<Rightarrow> string + string list" where
  "runtimeRootNames e rootName sources =
     (case sources of
        Some srcs \<Rightarrow> processLocalImports e srcs [(rootName, rootName)]
      | None \<Rightarrow>
         (case resolveModules e [rootName] of
            Inl err \<Rightarrow> Inl err
          | Inr resolved \<Rightarrow>
             (let resolvedRootName = hd resolved
              in processImports e [(resolvedRootName, resolvedRootName)])))"

text \<open>Lines 213 to 219: the fragments handed to \<open>host.mergeOptions\<close>.\<close>

definition runtimeCompilerOptions ::
  "env \<Rightarrow> string option \<Rightarrow> bool option \<Rightarrow> CompilerOptions list" where
  "runtimeCompilerOptions e options' bundle =
     [defaultRuntimeCompileOptions e]
       @ (case options' of
            Some s \<Rightarrow> if s \<noteq> [] then [convertCompilerOptions e s] else []
          | None \<Rightarrow> [])
       @ (if truthy_flag bundle then [defaultBundlerOptions e] else [])"

text \<open>
  Lines 212 to 231: the program that is checked and emitted, given the root names.
\<close>

definition runtimeProgram ::
  "env \<Rightarrow> string list \<Rightarrow> bool option \<Rightarrow> string option \<Rightarrow> Program" where
  "runtimeProgram e rootNames bundle options' =
     (let host = mergeOptions (newHost e bundle) (runtimeCompilerOptions e options' bundle);
          program = createProgram rootNames (getCompilationSettings host)
      in if truthy_flag bundle then setRootExports program (index0 rootNames) else program)"

definition runtimeDiagnostics ::
  "env \<Rightarrow> string list \<Rightarrow> bool option \<Rightarrow> string option \<Rightarrow> ts_Diagnostic list" where
  "runtimeDiagnostics e rootNames bundle options' =
     filterIgnored e (getPreEmitDiagnostics e (runtimeProgram e rootNames bundle options'))"

text \<open>Lines 201 to 210 and 237: the state after the engine has emitted into it.\<close>

definition runtimeState ::
  "env \<Rightarrow> string list \<Rightarrow> string entries option \<Rightarrow> bool option \<Rightarrow> string option
     \<Rightarrow> WriteFileState" where
  "runtimeState e rootNames sources bundle options' =
     (let state = \<lparr>st_type = RuntimeCompile, st_bundle = bundle, st_outFile = None,
                   st_rootNames = rootNames, st_sources = sources,
                   emitMap = Some Map.empty, emitBundle = None\<rparr>
      in foldl writeFile state (snd (emit e (runtimeProgram e rootNames bundle options'))))"

text \<open>Lines 243 to 247: the two-element result.\<close>

definition runtimeResult ::
  "env \<Rightarrow> string list \<Rightarrow> string entries option \<Rightarrow> bool option \<Rightarrow> string option
     \<Rightarrow> response" where
  "runtimeResult e rootNames sources bundle options' =
     (let its = items (fromTypeScriptDiagnostic
                        (runtimeDiagnostics e rootNames bundle options'));
          state = runtimeState e rootNames sources bundle options'
      in RuntimeCompileResult
           (if its \<noteq> [] then Some its else None)
           (if truthy_flag bundle then EmitBundleOut (emitBundle state)
            else EmitMapOut (emitMap state)))"

text \<open>
  The case from line 201 on, after the root names have been resolved. The assertion of
  line 239 stops the run before the result is built; the assertion of line 250 comes
  after \<open>postMessage\<close>.
\<close>

definition runtimeResolved ::
  "env \<Rightarrow> string list \<Rightarrow> string entries option \<Rightarrow> bool option \<Rightarrow> string option \<Rightarrow> run" where
  "runtimeResolved e rootNames sources bundle options' =
     (let emitResult = fst (emit e (runtimeProgram e rootNames bundle options'));
          state = runtimeState e rootNames sources bundle options';
          emitted = [Log ''>>> runtime compile start'', CreateProgram]
                      @ (if truthy_flag bundle then [SetRootExports] else [])
                      @ [GetPreEmitDiagnostics, Emit]
      in if emitSkipped emitResult
         then \<lparr>trace = emitted, failure = Some (AssertionError ''Unexpected skip of the emit.'')\<rparr>
         else
           (let posted = emitted
                           @ [PostMessage (runtimeResult e rootNames sources bundle options')]
            in if emitMap state = None
               then \<lparr>trace = posted, failure = Some (AssertionError ''assert'')\<rparr>
               else \<lparr>trace = posted @ [Log ''<<< runtime compile finish''], failure = None\<rparr>))"

text \<open>
  The whole case. An error of the resolution (lines 193 to 199, with the awaited
  \<open>processImports\<close> of line 199) leaves the handler after the first log.
\<close>

definition handleRuntimeCompile ::
  "env \<Rightarrow> string \<Rightarrow> string entries option \<Rightarrow> bool option \<Rightarrow> string option \<Rightarrow> run" where
  "handleRuntimeCompile e rootName sources bundle options' =
     (case runtimeRootNames e rootName sources of
        Inl err \<Rightarrow>
          \<lparr>trace = [Log ''>>> runtime compile start''], failure = Some (ResolutionError err)\<rparr>
      | Inr rootNames \<Rightarrow> runtimeResolved e rootNames sources bundle options')"

subsection \<open>The \<open>RuntimeTranspile\<close> case (lines 260 to 284)\<close>

text \<open>Lines 263 to 269.\<close>

definition transpileOptions :: "env \<Rightarrow> string option \<Rightarrow> CompilerOptions" where
  "transpileOptions e options' =
     (case options' of
        Some s \<Rightarrow>
          if s \<noteq> []
          then Object_assign Map.empty [defaultTranspileOptions e, convertCompilerOptions e s]
          else defaultTranspileOptions e
      | None \<Rightarrow> defaultTranspileOptions e)"

text \<open>
  The loop of lines 271 to 280 over \<open>Object.entries(sources)\<close>; line 279 is the
  assignment \<open>result[fileName] = { source, map }\<close> to the object created as \<open>{}\<close> in
  line 261.
\<close>

fun transpileLoop ::
  "env \<Rightarrow> CompilerOptions \<Rightarrow> string entries \<Rightarrow> TranspileOnlyResult object
     \<Rightarrow> TranspileOnlyResult object" where
  "transpileLoop e compilerOptions [] result = result"
| "transpileLoop e compilerOptions ((name, inputText) # rest) result =
     (let out = transpileModule e inputText name compilerOptions
      in transpileLoop e compilerOptions rest
           (setProperty name \<lparr>source = outputText out, map_text = sourceMapText out\<rparr> result))"

definition handleRuntimeTranspile :: "env \<Rightarrow> string entries \<Rightarrow> string option \<Rightarrow> run" where
  "handleRuntimeTranspile e sources options' =
     \<lparr>trace = map (\<lambda>entry. TranspileModule (fst entry)) sources
                @ [PostMessage (RuntimeTranspileResult
                     (transpileLoop e (transpileOptions e options') sources Map.empty))],
      failure = None\<rparr>"

subsection \<open>The handler (lines 87 to 295)\<close>

text \<open>
  The \<open>switch\<close> on the request type, then \<open>workerClose()\<close>. An error that leaves the
  handler skips everything after it: \<open>workerClose()\<close> is not reached.
\<close>

fun dispatch :: "env \<Rightarrow> CompilerRequest \<Rightarrow> run" where
  "dispatch e (CompilerRequestCompile rootNames configPath config bundle outFile) =
     handleCompile e rootNames configPath config bundle outFile"
| "dispatch e (CompilerRequestRuntimeCompile rootName sources bundle options') =
     handleRuntimeCompile e rootName sources bundle options'"
| "dispatch e (CompilerRequestRuntimeTranspile sources options') =
     handleRuntimeTranspile e sources options'"
| "dispatch e (CompilerRequestOther t) = \<lparr>trace = [LogUnhandled t], failure = None\<rparr>"

definition onmessage :: "env \<Rightarrow> CompilerRequest \<Rightarrow> run" where
  "onmessage e request =
     (let r = dispatch e request
      in case failure r of
           Some err \<Rightarrow> r
         | None \<Rightarrow> r\<lparr>trace := trace r @ [WorkerClose]\<rparr>)"

subsection \<open>Observations on requests, runs and responses\<close>

text \<open>The case of the \<open>switch\<close> a request selects, if any.\<close>

fun requestType :: "CompilerRequest \<Rightarrow> CompilerRequestType option" where
  "requestType (CompilerRequestCompile rootNames configPath config bundle outFile) = Some Compile"
| "requestType (CompilerRequestRuntimeCompile rootName sources bundle options') = Some RuntimeCompile"
| "requestType (CompilerRequestRuntimeTranspile sources options') = Some RuntimeTranspile"
| "requestType (CompilerRequestOther t) = None"

text \<open>
  A run answers once: one response is posted, the worker is closed, and closing is the
  last thing that happens.
\<close>

definition respondsOnce :: "run \<Rightarrow> bool" where
  "respondsOnce r =
     (length (responses (trace r)) = 1 \<and> trace r \<noteq> [] \<and> last (trace r) = WorkerClose
      \<and> WorkerClose \<notin> set (butlast (trace r)))"

text \<open>
  The diagnostics the configuration step leaves behind (none when no configuration is
  parsed or \<open>processConfigureResponse\<close> returns \<open>undefined\<close>).
\<close>

definition configurationDiagnostics ::
  "env \<Rightarrow> bool option \<Rightarrow> string option \<Rightarrow> string option \<Rightarrow> ts_Diagnostic list" where
  "configurationDiagnostics e bundle config configPath =
     (case fst (configureStep e bundle config configPath) of None \<Rightarrow> [] | Some ds \<Rightarrow> ds)"

text \<open>The diagnostic codes a response carries.\<close>

fun responseCodes :: "response \<Rightarrow> int list" where
  "responseCodes (CompileResult skipped None) = []"
| "responseCodes (CompileResult skipped (Some d)) = map itemCode (items d)"
| "responseCodes (RuntimeCompileResult None out) = []"
| "responseCodes (RuntimeCompileResult (Some its) out) = map itemCode its"
| "responseCodes (RuntimeTranspileResult result) = []"

subsection \<open>An example engine\<close>

text \<open>
  A small engine for evaluating the handler: every program has the pre-emit diagnostics
  \<open>pre\<close>, every emit reports \<open>er\<close> and writes one file, the configuration text \<open>bad\<close>
  does not parse, and the module \<open>/missing.ts\<close> does not exist.
\<close>

definition exampleDiagnostic :: "int \<Rightarrow> ts_Diagnostic" where
  "exampleDiagnostic c =
     \<lparr>code = c, category = Error, messageText = ''diagnostic'', fileName = None, start = None\<rparr>"

definition exampleImports :: "(string \<times> string) list \<Rightarrow> string + string list" where
  "exampleImports specifiers =
     (if ''/missing.ts'' \<in> set (map snd specifiers) then Inl ''Cannot resolve module''
      else Inr (map snd specifiers))"

definition exampleEnv :: "ts_Diagnostic list \<Rightarrow> EmitResult \<Rightarrow> env" where
  "exampleEnv pre er =
     \<lparr>processImports = exampleImports,
      processLocalImports = (\<lambda>srcs. exampleImports),
      resolveSpecifier = Inr,
      newHost = (\<lambda>b. \<lparr>host_options = [''strict'' \<mapsto> ''true'']\<rparr>),
      configure = (\<lambda>h p c.
         (\<lparr>ignoredOptions = None,
           configDiagnostics = (if c = ''bad'' then Some [exampleDiagnostic 5023] else None)\<rparr>, h)),
      processConfigureResponse = (\<lambda>r p. configDiagnostics r),
      getPreEmitDiagnostics = (\<lambda>p. pre),
      emit = (\<lambda>p. (er, [(''/a.js'', ''export const x = 1;'')])),
      transpileModule = (\<lambda>inputText name opts. \<lparr>outputText = inputText, sourceMapText = None\<rparr>),
      convertCompilerOptions = (\<lambda>s. [''module'' \<mapsto> s]),
      ignoredDiagnostics = [2306, 1375, 1103, 2691, 5009, 5055, 5070, 7016],
      defaultRuntimeCompileOptions = [''outDir'' \<mapsto> ''undefined''],
      defaultBundlerOptions = [''module'' \<mapsto> ''amd''],
      defaultTranspileOptions = [''esModuleInterop'' \<mapsto> ''true'', ''module'' \<mapsto> ''esnext'']\<rparr>"

definition emitOk :: EmitResult where
  "emitOk = \<lparr>emitSkipped = False, diagnostics = []\<rparr>"

definition emitRefused :: EmitResult where
  "emitRefused = \<lparr>emitSkipped = True, diagnostics = [exampleDiagnostic 4094]\<rparr>"

definition emitComplaining :: EmitResult where
  "emitComplaining = \<lparr>emitSkipped = False, diagnostics = [exampleDiagnostic 5055]\<rparr>"

section \<open>Properties of the handler\<close>

lemmas handler_defs =
  onmessage_def handleCompile_def compileResolved_def compileRoots_def compileBuild_def
  compileRespond_def configureStep_def
  configureEvents_def compileDiagnostics_def compileProgram_def compileEmitted_def
  handleRuntimeCompile_def runtimeResolved_def runtimeResult_def runtimeState_def
  runtimeDiagnostics_def
  runtimeProgram_def runtimeRootNames_def runtimeCompilerOptions_def
  handleRuntimeTranspile_def transpileOptions_def filterIgnored_def
  fromTypeScriptDiagnostic_def parseDiagnostic_def createProgram_def setRootExports_def
  mergeOptions_def getCompilationSettings_def Object_assign_def
  writeFile_def setProperty_def truthy_flag_def index0_def
  configurationDiagnostics_def respondsOnce_def

lemmas example_defs =
  exampleEnv_def exampleImports_def exampleDiagnostic_def emitOk_def emitRefused_def
  emitComplaining_def

subsection \<open>Responses and shapes of runs\<close>

lemma responses_append: "responses (xs @ ys) = responses xs @ responses ys"
  by (induction xs rule: responses.induct) simp_all

lemma responses_configureEvents: "responses (configureEvents config configPath) = []"
  by (simp add: configureEvents_def split: option.splits)

lemma responses_compileRespond:
  "responses (compileRespond skipped ds) =
     [CompileResult skipped (if ds \<noteq> [] then Some (fromTypeScriptDiagnostic ds) else None)]"
  by (simp add: compileRespond_def)

lemma responses_transpileEvents:
  "responses (map (\<lambda>entry. TranspileModule (fst entry)) sources) = []"
  by (induction sources) simp_all

lemma close_configureEvents: "WorkerClose \<notin> set (configureEvents config configPath)"
  by (simp add: configureEvents_def split: option.splits)

lemma close_compileRespond: "WorkerClose \<notin> set (compileRespond skipped ds)"
  by (simp add: compileRespond_def)

lemma emit_configureEvents: "Emit \<notin> set (configureEvents config configPath)"
  by (simp add: configureEvents_def split: option.splits)

lemma program_configureEvents: "CreateProgram \<notin> set (configureEvents config configPath)"
  by (simp add: configureEvents_def split: option.splits)

lemma emitMap_writeFile: "emitMap state \<noteq> None \<Longrightarrow> emitMap (writeFile state w) \<noteq> None"
  by (cases w) (simp add: writeFile_def split: CompilerRequestType.splits)

lemma emitMap_foldl_writeFile:
  "emitMap state \<noteq> None \<Longrightarrow> emitMap (foldl writeFile state ws) \<noteq> None"
proof (induction ws arbitrary: state)
  case Nil
  then show ?case by simp
next
  case (Cons w ws)
  from Cons.prems have "emitMap (writeFile state w) \<noteq> None"
    by (rule emitMap_writeFile)
  then have "emitMap (foldl writeFile (writeFile state w) ws) \<noteq> None"
    by (rule Cons.IH)
  then show ?case by simp
qed

lemma emitMap_runtimeState: "emitMap (runtimeState e rootNames sources bundle options') \<noteq> None"
  by (simp add: runtimeState_def emitMap_foldl_writeFile)

text \<open>The shapes of a \<open>Compile\<close> run once the root modules are resolved.\<close>

lemma compileResolved_configured:
  "configurationDiagnostics e bundle config configPath \<noteq> [] \<Longrightarrow>
   compileResolved e rootNames configPath config bundle outFile roots =
     \<lparr>trace = Log ''>>> compile start'' # configureEvents config configPath
                @ compileRespond True (configurationDiagnostics e bundle config configPath),
      failure = None\<rparr>"
  by (simp add: compileResolved_def configurationDiagnostics_def
        split: option.splits list.splits)

lemma compileResolved_build:
  "configurationDiagnostics e bundle config configPath = [] \<Longrightarrow>
   compileResolved e rootNames configPath config bundle outFile roots =
     compileBuild e rootNames configPath config bundle outFile roots"
  by (simp add: compileResolved_def configurationDiagnostics_def
        split: option.splits list.splits)

lemma compileBuild_reported:
  "compileDiagnostics e rootNames configPath config bundle \<noteq> [] \<Longrightarrow>
   compileBuild e rootNames configPath config bundle outFile roots =
     \<lparr>trace = Log ''>>> compile start'' # configureEvents config configPath
                @ [CreateProgram, GetPreEmitDiagnostics]
                @ compileRespond True (compileDiagnostics e rootNames configPath config bundle),
      failure = None\<rparr>"
  by (simp add: compileBuild_def Let_def)

lemma compileBuild_asserted:
  "compileDiagnostics e rootNames configPath config bundle = [] \<Longrightarrow>
   truthy_flag bundle \<Longrightarrow> length roots \<noteq> 1 \<Longrightarrow>
   compileBuild e rootNames configPath config bundle outFile roots =
     \<lparr>trace = Log ''>>> compile start'' # configureEvents config configPath
                @ [CreateProgram, GetPreEmitDiagnostics],
      failure = Some (AssertionError ''assert'')\<rparr>"
  by (simp add: compileBuild_def Let_def)

lemma compileBuild_emitted:
  "compileDiagnostics e rootNames configPath config bundle = [] \<Longrightarrow>
   \<not> (truthy_flag bundle \<and> length roots \<noteq> 1) \<Longrightarrow>
   compileBuild e rootNames configPath config bundle outFile roots =
     \<lparr>trace = Log ''>>> compile start'' # configureEvents config configPath
                @ [CreateProgram, GetPreEmitDiagnostics]
                @ (if truthy_flag bundle then [Warn ''Bundling'', SetRootExports] else [])
                @ [Emit]
                @ compileRespond
                    (emitSkipped (fst (emit e
                       (compileEmitted e rootNames configPath config bundle roots))))
                    (diagnostics (fst (emit e
                       (compileEmitted e rootNames configPath config bundle roots)))),
      failure = None\<rparr>"
  by (simp add: compileBuild_def Let_def split: prod.splits)

lemma compileResolved_cases:
  obtains
    (configured) "configurationDiagnostics e b config configPath \<noteq> []"
  | (reported) "configurationDiagnostics e b config configPath = []"
      "compileDiagnostics e rootNames configPath config b \<noteq> []"
  | (asserted) "configurationDiagnostics e b config configPath = []"
      "compileDiagnostics e rootNames configPath config b = []"
      "truthy_flag b" "length roots \<noteq> 1"
  | (emitted) "configurationDiagnostics e b config configPath = []"
      "compileDiagnostics e rootNames configPath config b = []"
      "\<not> (truthy_flag b \<and> length roots \<noteq> 1)"
  by blast

lemma compileResolved_responses_le:
  "length (responses (trace (compileResolved e rootNames configPath config bundle outFile roots)))
     \<le> 1"
  by (cases rule: compileResolved_cases
        [where e = e and b = "bundle" and config = config and configPath = configPath
           and rootNames = rootNames and roots = roots])
     (simp_all add: compileResolved_configured compileResolved_build compileBuild_reported
        compileBuild_asserted compileBuild_emitted responses_append responses_configureEvents
        responses_compileRespond)

lemma compileResolved_responses_one:
  "failure (compileResolved e rootNames configPath config bundle outFile roots) = None \<Longrightarrow>
   length (responses (trace (compileResolved e rootNames configPath config bundle outFile roots)))
     = 1"
  by (cases rule: compileResolved_cases
        [where e = e and b = "bundle" and config = config and configPath = configPath
           and rootNames = rootNames and roots = roots])
     (simp_all add: compileResolved_configured compileResolved_build compileBuild_reported
        compileBuild_asserted compileBuild_emitted responses_append responses_configureEvents
        responses_compileRespond)

lemma compileResolved_no_close:
  "WorkerClose \<notin> set (trace (compileResolved e rootNames configPath config bundle outFile roots))"
  by (cases rule: compileResolved_cases
        [where e = e and b = "bundle" and config = config and configPath = configPath
           and rootNames = rootNames and roots = roots])
     (simp_all add: compileResolved_configured compileResolved_build compileBuild_reported
        compileBuild_asserted compileBuild_emitted close_configureEvents close_compileRespond)

lemma handleCompile_rejected:
  "compileRoots e rootNames = Inl err \<Longrightarrow>
   handleCompile e rootNames configPath config bundle outFile =
     \<lparr>trace = [Log ''>>> compile start''], failure = Some (ResolutionError err)\<rparr>"
  by (simp add: handleCompile_def)

lemma handleCompile_resolved:
  "compileRoots e rootNames = Inr roots \<Longrightarrow>
   handleCompile e rootNames configPath config bundle outFile =
     compileResolved e rootNames configPath config bundle outFile roots"
  by (simp add: handleCompile_def)

text \<open>The shapes of a \<open>RuntimeCompile\<close> run once the root names are resolved.\<close>

lemma runtimeResolved_skipped:
  "emitSkipped (fst (emit e (runtimeProgram e rootNames bundle options'))) \<Longrightarrow>
   runtimeResolved e rootNames sources bundle options' =
     \<lparr>trace = [Log ''>>> runtime compile start'', CreateProgram]
                @ (if truthy_flag bundle then [SetRootExports] else [])
                @ [GetPreEmitDiagnostics, Emit],
      failure = Some (AssertionError ''Unexpected skip of the emit.'')\<rparr>"
  by (simp add: runtimeResolved_def)

lemma runtimeResolved_posted:
  "\<not> emitSkipped (fst (emit e (runtimeProgram e rootNames bundle options'))) \<Longrightarrow>
   runtimeResolved e rootNames sources bundle options' =
     \<lparr>trace = [Log ''>>> runtime compile start'', CreateProgram]
                @ (if truthy_flag bundle then [SetRootExports] else [])
                @ [GetPreEmitDiagnostics, Emit,
                   PostMessage (runtimeResult e rootNames sources bundle options'),
                   Log ''<<< runtime compile finish''],
      failure = None\<rparr>"
  using emitMap_runtimeState [of e rootNames sources "bundle" options']
  by (simp add: runtimeResolved_def Let_def)

lemma handleRuntimeCompile_rejected:
  "runtimeRootNames e rootName sources = Inl err \<Longrightarrow>
   handleRuntimeCompile e rootName sources bundle options' =
     \<lparr>trace = [Log ''>>> runtime compile start''], failure = Some (ResolutionError err)\<rparr>"
  by (simp add: handleRuntimeCompile_def)

lemma handleRuntimeCompile_resolved:
  "runtimeRootNames e rootName sources = Inr rootNames \<Longrightarrow>
   handleRuntimeCompile e rootName sources bundle options' =
     runtimeResolved e rootNames sources bundle options'"
  by (simp add: handleRuntimeCompile_def)

text \<open>Every case posts at most once, and never closes the worker itself.\<close>

lemma dispatch_responses_le: "length (responses (trace (dispatch e request))) \<le> 1"
proof (cases request)
  case (CompilerRequestCompile rootNames configPath config bundle' outFile)
  show ?thesis
  proof (cases "compileRoots e rootNames")
    case (Inl err)
    with CompilerRequestCompile show ?thesis
      by (simp add: handleCompile_rejected)
  next
    case (Inr roots)
    with CompilerRequestCompile show ?thesis
      using compileResolved_responses_le [of e rootNames configPath config bundle' outFile roots]
      by (simp add: handleCompile_resolved)
  qed
next
  case (CompilerRequestRuntimeCompile rootName sources bundle' options')
  show ?thesis
  proof (cases "runtimeRootNames e rootName sources")
    case (Inl err)
    with CompilerRequestRuntimeCompile show ?thesis
      by (simp add: handleRuntimeCompile_rejected)
  next
    case (Inr rootNames)
    with CompilerRequestRuntimeCompile show ?thesis
      by (cases "emitSkipped (fst (emit e (runtimeProgram e rootNames bundle' options')))")
         (simp_all add: handleRuntimeCompile_resolved runtimeResolved_skipped
            runtimeResolved_posted)
  qed
next
  case (CompilerRequestRuntimeTranspile sources options')
  then show ?thesis
    by (simp add: handleRuntimeTranspile_def responses_append responses_transpileEvents)
next
  case (CompilerRequestOther t)
  then show ?thesis by simp
qed

lemma dispatch_responses_one:
  assumes "failure (dispatch e request) = None" and "requestType request \<noteq> None"
  shows "length (responses (trace (dispatch e request))) = 1"
proof (cases request)
  case (CompilerRequestCompile rootNames configPath config bundle' outFile)
  show ?thesis
  proof (cases "compileRoots e rootNames")
    case (Inl err)
    with CompilerRequestCompile assms show ?thesis
      by (simp add: handleCompile_rejected)
  next
    case (Inr roots)
    with CompilerRequestCompile assms show ?thesis
      by (simp add: handleCompile_resolved compileResolved_responses_one)
  qed
next
  case (CompilerRequestRuntimeCompile rootName sources bundle' options')
  show ?thesis
  proof (cases "runtimeRootNames e rootName sources")
    case (Inl err)
    with CompilerRequestRuntimeCompile assms show ?thesis
      by (simp add: handleRuntimeCompile_rejected)
  next
    case (Inr rootNames)
    with CompilerRequestRuntimeCompile assms show ?thesis
      by (cases "emitSkipped (fst (emit e (runtimeProgram e rootNames bundle' options')))")
         (simp_all add: handleRuntimeCompile_resolved runtimeResolved_skipped
            runtimeResolved_posted)
  qed
next
  case (CompilerRequestRuntimeTranspile sources options')
  then show ?thesis
    by (simp add: handleRuntimeTranspile_def responses_append responses_transpileEvents)
next
  case (CompilerRequestOther t)
  with assms show ?thesis by simp
qed

lemma dispatch_no_close: "WorkerClose \<notin> set (trace (dispatch e request))"
proof (cases request)
  case (CompilerRequestCompile rootNames configPath config bundle' outFile)
  show ?thesis
  proof (cases "compileRoots e rootNames")
    case (Inl err)
    with CompilerRequestCompile show ?thesis
      by (simp add: handleCompile_rejected)
  next
    case (Inr roots)
    with CompilerRequestCompile show ?thesis
      by (simp add: handleCompile_resolved compileResolved_no_close)
  qed
next
  case (CompilerRequestRuntimeCompile rootName sources bundle' options')
  show ?thesis
  proof (cases "runtimeRootNames e rootName sources")
    case (Inl err)
    with CompilerRequestRuntimeCompile show ?thesis
      by (simp add: handleRuntimeCompile_rejected)
  next
    case (Inr rootNames)
    with CompilerRequestRuntimeCompile show ?thesis
      by (cases "emitSkipped (fst (emit e (runtimeProgram e rootNames bundle' options')))")
         (simp_all add: handleRuntimeCompile_resolved runtimeResolved_skipped
            runtimeResolved_posted)
  qed
next
  case (CompilerRequestRuntimeTranspile sources options')
  then show ?thesis by (auto simp add: handleRuntimeTranspile_def)
next
  case (CompilerRequestOther t)
  then show ?thesis by simp
qed

lemma onmessage_completed:
  "failure (dispatch e request) = None \<Longrightarrow>
   onmessage e request = \<lparr>trace = trace (dispatch e request) @ [WorkerClose], failure = None\<rparr>"
  by (simp add: onmessage_def Let_def)

lemma onmessage_aborted:
  "failure (dispatch e request) = Some err \<Longrightarrow> onmessage e request = dispatch e request"
  by (simp add: onmessage_def Let_def)

lemma failure_onmessage: "failure (onmessage e request) = failure (dispatch e request)"
  by (simp add: onmessage_def Let_def split: option.splits)

subsection \<open>One response per request\<close>

text \<open>
  [C1 as stated fails] A message whose type tag selects no case of the \<open>switch\<close> is
  logged and the worker is closed: no response is posted.
\<close>

theorem unknown_kind_unanswered:
  "\<not> respondsOnce (onmessage (exampleEnv [] emitOk) (CompilerRequestOther 3))"
  by (simp add: respondsOnce_def onmessage_def)

text \<open>
  [C1, amended] No request is answered more than once. A request of one of the three
  known kinds whose handling runs to its end (no assertion fails and no module
  resolution ends in an error, such as a rejected \<open>await processImports\<close>) is answered
  exactly once, and then the worker is closed. A message of no known kind is logged,
  nothing is posted, and the worker is closed: its run is the log of the \<open>default\<close>
  branch followed by \<open>workerClose\<close>.
\<close>

theorem one_response_when_handled:
  "length (responses (trace (onmessage e request))) \<le> 1
   \<and> (requestType request \<noteq> None \<and> failure (onmessage e request) = None
        \<longrightarrow> respondsOnce (onmessage e request))
   \<and> onmessage e (CompilerRequestOther t)
        = \<lparr>trace = [LogUnhandled t, WorkerClose], failure = None\<rparr>
   \<and> responses (trace (onmessage e (CompilerRequestOther t))) = []"
proof (intro conjI impI)
  show "length (responses (trace (onmessage e request))) \<le> 1"
    using dispatch_responses_le [of e request]
    by (cases "failure (dispatch e request)")
       (simp_all add: onmessage_completed onmessage_aborted responses_append)
next
  assume h: "requestType request \<noteq> None \<and> failure (onmessage e request) = None"
  then have f: "failure (dispatch e request) = None"
    by (simp add: failure_onmessage)
  from h f show "respondsOnce (onmessage e request)"
    using dispatch_responses_one [of e request] dispatch_no_close [of e request]
    by (simp add: onmessage_completed respondsOnce_def responses_append)
next
  show "onmessage e (CompilerRequestOther t)
        = \<lparr>trace = [LogUnhandled t, WorkerClose], failure = None\<rparr>"
    by (simp add: onmessage_def)
next
  show "responses (trace (onmessage e (CompilerRequestOther t))) = []"
    by (simp add: onmessage_def)
qed

text \<open>The statement at a \<open>Compile\<close> request and at an unknown message.\<close>

theorem one_response_when_handled_witness:
  "requestType (CompilerRequestCompile [''/a.ts''] None None None None) \<noteq> None
   \<and> failure (onmessage (exampleEnv [] emitOk)
        (CompilerRequestCompile [''/a.ts''] None None None None)) = None
   \<and> respondsOnce (onmessage (exampleEnv [] emitOk)
        (CompilerRequestCompile [''/a.ts''] None None None None))
   \<and> trace (onmessage (exampleEnv [] emitOk) (CompilerRequestOther 3))
       = [LogUnhandled 3, WorkerClose]"
proof -
  have f: "failure (onmessage (exampleEnv [] emitOk)
        (CompilerRequestCompile [''/a.ts''] None None None None)) = None"
    by (simp add: handler_defs example_defs)
  show ?thesis
    using f one_response_when_handled
      [of "exampleEnv [] emitOk" "CompilerRequestCompile [''/a.ts''] None None None None" 3]
    by simp
qed

text \<open>
  A request whose awaited module resolution is rejected is left without a response, and
  the worker is not closed by the handler: the hypothesis on the failure in the statement
  above is needed for the known kinds as well.
\<close>

lemma rejected_resolution_unanswered:
  "onmessage (exampleEnv [] emitOk) (CompilerRequestCompile [''/missing.ts''] None None None None)
     = \<lparr>trace = [Log ''>>> compile start''],
        failure = Some (ResolutionError ''Cannot resolve module'')\<rparr>
   \<and> onmessage (exampleEnv [] emitOk)
       (CompilerRequestRuntimeCompile ''/missing.ts'' None None None)
     = \<lparr>trace = [Log ''>>> runtime compile start''],
        failure = Some (ResolutionError ''Cannot resolve module'')\<rparr>"
  by (simp add: handler_defs example_defs)

subsection \<open>Whole runs of the handler\<close>

lemma onmessage_Compile_configured:
  "compileRoots e rootNames = Inr roots \<Longrightarrow>
   configurationDiagnostics e bundle config configPath \<noteq> [] \<Longrightarrow>
   onmessage e (CompilerRequestCompile rootNames configPath config bundle outFile) =
     \<lparr>trace = Log ''>>> compile start'' # configureEvents config configPath
                @ compileRespond True (configurationDiagnostics e bundle config configPath)
                @ [WorkerClose],
      failure = None\<rparr>"
  by (simp add: onmessage_def handleCompile_resolved compileResolved_configured)

lemma onmessage_Compile_reported:
  "compileRoots e rootNames = Inr roots \<Longrightarrow>
   configurationDiagnostics e bundle config configPath = [] \<Longrightarrow>
   compileDiagnostics e rootNames configPath config bundle \<noteq> [] \<Longrightarrow>
   onmessage e (CompilerRequestCompile rootNames configPath config bundle outFile) =
     \<lparr>trace = Log ''>>> compile start'' # configureEvents config configPath
                @ [CreateProgram, GetPreEmitDiagnostics]
                @ compileRespond True (compileDiagnostics e rootNames configPath config bundle)
                @ [WorkerClose],
      failure = None\<rparr>"
  by (simp add: onmessage_def handleCompile_resolved compileResolved_build
        compileBuild_reported)

lemma onmessage_Compile_asserted:
  "compileRoots e rootNames = Inr roots \<Longrightarrow>
   configurationDiagnostics e bundle config configPath = [] \<Longrightarrow>
   compileDiagnostics e rootNames configPath config bundle = [] \<Longrightarrow>
   truthy_flag bundle \<Longrightarrow> length roots \<noteq> 1 \<Longrightarrow>
   onmessage e (CompilerRequestCompile rootNames configPath config bundle outFile) =
     \<lparr>trace = Log ''>>> compile start'' # configureEvents config configPath
                @ [CreateProgram, GetPreEmitDiagnostics],
      failure = Some (AssertionError ''assert'')\<rparr>"
  by (simp add: onmessage_def handleCompile_resolved compileResolved_build
        compileBuild_asserted)

lemma onmessage_Compile_emitted:
  "compileRoots e rootNames = Inr roots \<Longrightarrow>
   configurationDiagnostics e bundle config configPath = [] \<Longrightarrow>
   compileDiagnostics e rootNames configPath config bundle = [] \<Longrightarrow>
   \<not> (truthy_flag bundle \<and> length roots \<noteq> 1) \<Longrightarrow>
   onmessage e (CompilerRequestCompile rootNames configPath config bundle outFile) =
     \<lparr>trace = Log ''>>> compile start'' # configureEvents config configPath
                @ [CreateProgram, GetPreEmitDiagnostics]
                @ (if truthy_flag bundle then [Warn ''Bundling'', SetRootExports] else [])
                @ [Emit]
                @ compileRespond
                    (emitSkipped (fst (emit e
                       (compileEmitted e rootNames configPath config bundle roots))))
                    (diagnostics (fst (emit e
                       (compileEmitted e rootNames configPath config bundle roots))))
                @ [WorkerClose],
      failure = None\<rparr>"
  by (simp add: onmessage_def handleCompile_resolved compileResolved_build
        compileBuild_emitted)

lemma onmessage_Compile_rejected:
  "compileRoots e rootNames = Inl err \<Longrightarrow>
   onmessage e (CompilerRequestCompile rootNames configPath config bundle outFile) =
     \<lparr>trace = [Log ''>>> compile start''], failure = Some (ResolutionError err)\<rparr>"
  by (simp add: onmessage_def handleCompile_rejected)

lemma onmessage_RuntimeCompile_skipped:
  "runtimeRootNames e rootName sources = Inr rootNames \<Longrightarrow>
   emitSkipped (fst (emit e (runtimeProgram e rootNames bundle options'))) \<Longrightarrow>
   onmessage e (CompilerRequestRuntimeCompile rootName sources bundle options') =
     \<lparr>trace = [Log ''>>> runtime compile start'', CreateProgram]
                @ (if truthy_flag bundle then [SetRootExports] else [])
                @ [GetPreEmitDiagnostics, Emit],
      failure = Some (AssertionError ''Unexpected skip of the emit.'')\<rparr>"
  by (simp add: onmessage_def handleRuntimeCompile_resolved runtimeResolved_skipped)

lemma onmessage_RuntimeCompile_posted:
  "runtimeRootNames e rootName sources = Inr rootNames \<Longrightarrow>
   \<not> emitSkipped (fst (emit e (runtimeProgram e rootNames bundle options'))) \<Longrightarrow>
   onmessage e (CompilerRequestRuntimeCompile rootName sources bundle options') =
     \<lparr>trace = [Log ''>>> runtime compile start'', CreateProgram]
                @ (if truthy_flag bundle then [SetRootExports] else [])
                @ [GetPreEmitDiagnostics, Emit,
                   PostMessage (runtimeResult e rootNames sources bundle options'),
                   Log ''<<< runtime compile finish'', WorkerClose],
      failure = None\<rparr>"
  by (simp add: onmessage_def handleRuntimeCompile_resolved runtimeResolved_posted)

lemma onmessage_RuntimeCompile_rejected:
  "runtimeRootNames e rootName sources = Inl err \<Longrightarrow>
   onmessage e (CompilerRequestRuntimeCompile rootName sources bundle options') =
     \<lparr>trace = [Log ''>>> runtime compile start''], failure = Some (ResolutionError err)\<rparr>"
  by (simp add: onmessage_def handleRuntimeCompile_rejected)

subsection \<open>Bundling and the number of root modules\<close>

text \<open>
  [C2 as stated fails] A \<open>Compile\<close> request with \<open>bundle = true\<close> and two resolved
  root modules whose program has a pre-emit diagnostic: the assertion of line 154 is
  inside the branch taken only without diagnostics, so the run fails no assertion and
  reports the diagnostic with \<open>emitSkipped = true\<close>.
\<close>

theorem bundle_roots_not_asserted:
  "truthy_flag (Some True)
   \<and> compileRoots (exampleEnv [exampleDiagnostic 2322] emitOk) [''/a.ts'', ''/b.ts'']
       = Inr [''/a.ts'', ''/b.ts'']
   \<and> onmessage (exampleEnv [exampleDiagnostic 2322] emitOk)
        (CompilerRequestCompile [''/a.ts'', ''/b.ts''] None None (Some True) None) =
       \<lparr>trace = [Log ''>>> compile start'', CreateProgram, GetPreEmitDiagnostics,
                  PostMessage (CompileResult True
                    (Some \<lparr>items = [parseDiagnostic (exampleDiagnostic 2322)]\<rparr>)),
                  Log ''<<< compile end'', WorkerClose],
        failure = None\<rparr>"
  by (simp add: handler_defs example_defs)

text \<open>
  [C2, amended] For every \<open>Compile\<close> request with \<open>bundle = true\<close> whose resolved
  root module list has more than one element, if neither the configuration step nor the
  filtered pre-emit check leaves a diagnostic, the handler fails the assertion before the
  emit is invoked, and no response is posted.
\<close>

theorem bundle_roots_asserted_before_emit:
  assumes "truthy_flag bundle"
    and "compileRoots e rootNames = Inr resolvedRootModules"
    and "1 < length resolvedRootModules"
    and "configurationDiagnostics e bundle config configPath = []"
    and "compileDiagnostics e rootNames configPath config bundle = []"
  shows "failure (onmessage e (CompilerRequestCompile rootNames configPath config bundle outFile))
           = Some (AssertionError ''assert'')
         \<and> Emit \<notin> set (trace (onmessage e
               (CompilerRequestCompile rootNames configPath config bundle outFile)))
         \<and> responses (trace (onmessage e
               (CompilerRequestCompile rootNames configPath config bundle outFile))) = []"
proof -
  from assms(3) have "length resolvedRootModules \<noteq> 1"
    by simp
  with assms show ?thesis
    by (simp add: onmessage_Compile_asserted emit_configureEvents responses_append
          responses_configureEvents)
qed

text \<open>The statement at a bundle request with two roots and a clean program.\<close>

theorem bundle_roots_asserted_before_emit_witness:
  "truthy_flag (Some True)
   \<and> compileRoots (exampleEnv [] emitOk) [''/a.ts'', ''/b.ts''] = Inr [''/a.ts'', ''/b.ts'']
   \<and> 1 < length [''/a.ts'', ''/b.ts'']
   \<and> configurationDiagnostics (exampleEnv [] emitOk) (Some True) None None = []
   \<and> compileDiagnostics (exampleEnv [] emitOk) [''/a.ts'', ''/b.ts''] None None (Some True) = []
   \<and> failure (onmessage (exampleEnv [] emitOk)
        (CompilerRequestCompile [''/a.ts'', ''/b.ts''] None None (Some True) None))
       = Some (AssertionError ''assert'')
   \<and> Emit \<notin> set (trace (onmessage (exampleEnv [] emitOk)
        (CompilerRequestCompile [''/a.ts'', ''/b.ts''] None None (Some True) None)))
   \<and> responses (trace (onmessage (exampleEnv [] emitOk)
        (CompilerRequestCompile [''/a.ts'', ''/b.ts''] None None (Some True) None))) = []"
proof -
  have h1: "truthy_flag (Some True)"
    by (simp add: truthy_flag_def)
  have h2: "compileRoots (exampleEnv [] emitOk) [''/a.ts'', ''/b.ts'']
              = Inr [''/a.ts'', ''/b.ts'']"
    by (simp add: compileRoots_def example_defs)
  have h3: "1 < length [''/a.ts'', ''/b.ts'']"
    by simp
  have h4: "configurationDiagnostics (exampleEnv [] emitOk) (Some True) None None = []"
    by (simp add: handler_defs example_defs)
  have h5: "compileDiagnostics (exampleEnv [] emitOk) [''/a.ts'', ''/b.ts''] None None (Some True)
              = []"
    by (simp add: handler_defs example_defs)
  from h1 h2 h3 h4 h5 bundle_roots_asserted_before_emit [OF h1 h2 h3 h4 h5, of None]
  show ?thesis by simp
qed

subsection \<open>The result of a clean \<open>Compile\<close>\<close>

text \<open>
  [C4 as stated fails] The program has no pre-emit diagnostics, the engine's emit reports
  \<open>emitSkipped = true\<close> with a diagnostic of its own: lines 160 and 163 hand both on to
  the response.
\<close>

theorem clean_program_emit_refused:
  "compileDiagnostics (exampleEnv [] emitRefused) [''/a.ts''] None None None = []
   \<and> responses (trace (onmessage (exampleEnv [] emitRefused)
        (CompilerRequestCompile [''/a.ts''] None None None None)))
       = [CompileResult True (Some \<lparr>items = [parseDiagnostic (exampleDiagnostic 4094)]\<rparr>)]"
  by (simp add: handler_defs example_defs)

text \<open>
  [C4, amended] For every \<open>Compile\<close> request whose configuration step leaves no
  diagnostics, whose program yields zero filtered pre-emit diagnostics and whose bundling
  assertion holds (the root modules being resolved), the posted \<open>CompileResult\<close> has the
  \<open>emitSkipped\<close> flag that the engine's emit reports and the translated diagnostics of
  the emit, absent when there are none; so \<open>emitSkipped = false\<close> with absent
  diagnostics when the emit reports no skip and no diagnostics.
\<close>

theorem clean_program_reports_emit_result:
  assumes "configurationDiagnostics e bundle config configPath = []"
    and "compileDiagnostics e rootNames configPath config bundle = []"
    and "compileRoots e rootNames = Inr resolvedRootModules"
    and "truthy_flag bundle \<longrightarrow> length resolvedRootModules = 1"
    and "emitResult = fst (emit e
           (compileEmitted e rootNames configPath config bundle resolvedRootModules))"
  shows "responses (trace (onmessage e
            (CompilerRequestCompile rootNames configPath config bundle outFile)))
           = [CompileResult (emitSkipped emitResult)
                (if diagnostics emitResult \<noteq> []
                 then Some (fromTypeScriptDiagnostic (diagnostics emitResult)) else None)]
         \<and> (\<not> emitSkipped emitResult \<and> diagnostics emitResult = []
              \<longrightarrow> responses (trace (onmessage e
                     (CompilerRequestCompile rootNames configPath config bundle outFile)))
                   = [CompileResult False None])"
proof -
  from assms(4) have "\<not> (truthy_flag bundle \<and> length resolvedRootModules \<noteq> 1)"
    by simp
  with assms(1,2,3,5) show ?thesis
    by (simp add: onmessage_Compile_emitted responses_append responses_configureEvents
          responses_compileRespond)
qed

text \<open>The statement at a clean program whose emit succeeds.\<close>

theorem clean_program_reports_emit_result_witness:
  "configurationDiagnostics (exampleEnv [] emitOk) None None None = []
   \<and> compileDiagnostics (exampleEnv [] emitOk) [''/a.ts''] None None None = []
   \<and> compileRoots (exampleEnv [] emitOk) [''/a.ts''] = Inr [''/a.ts'']
   \<and> \<not> truthy_flag None
   \<and> \<not> emitSkipped emitOk \<and> diagnostics emitOk = []
   \<and> responses (trace (onmessage (exampleEnv [] emitOk)
        (CompilerRequestCompile [''/a.ts''] None None None None))) = [CompileResult False None]"
proof -
  have h1: "configurationDiagnostics (exampleEnv [] emitOk) None None None = []"
    by (simp add: handler_defs example_defs)
  have h2: "compileDiagnostics (exampleEnv [] emitOk) [''/a.ts''] None None None = []"
    by (simp add: handler_defs example_defs)
  have r: "compileRoots (exampleEnv [] emitOk) [''/a.ts''] = Inr [''/a.ts'']"
    by (simp add: compileRoots_def example_defs)
  have n: "\<not> truthy_flag None"
    by (simp add: truthy_flag_def)
  then have h3: "truthy_flag None \<longrightarrow> length [''/a.ts''] = 1"
    by simp
  have h4: "emitOk = fst (emit (exampleEnv [] emitOk)
              (compileEmitted (exampleEnv [] emitOk) [''/a.ts''] None None None [''/a.ts'']))"
    by (simp add: exampleEnv_def)
  have h5: "\<not> emitSkipped emitOk \<and> diagnostics emitOk = []"
    by (simp add: emitOk_def)
  from h1 h2 r n h5 clean_program_reports_emit_result [OF h1 h2 r h3 h4, of None]
  show ?thesis by simp
qed

subsection \<open>A configuration that does not parse\<close>

text \<open>
  [C7] For every \<open>Compile\<close> request with a non-empty config source \<open>c\<close> and a config
  path \<open>p\<close> (a path that passes the test of line 129, that is, a non-empty string): if
  parsing the configuration (which the handler does once the root modules are resolved)
  yields the diagnostics \<open>ds\<close>, one or more, the handler posts \<open>emitSkipped = true\<close>
  with those diagnostics and closes the worker; the program is never constructed and the
  emit never invoked.
\<close>

theorem configuration_failure_short_circuits:
  assumes "c \<noteq> []" and "p \<noteq> []"
    and "compileRoots e rootNames = Inr resolvedRootModules"
    and "processConfigureResponse e (fst (configure e (newHost e bundle) p c)) p = Some ds"
    and "ds \<noteq> []"
  shows "responses (trace (onmessage e
            (CompilerRequestCompile rootNames (Some p) (Some c) bundle outFile)))
           = [CompileResult True (Some (fromTypeScriptDiagnostic ds))]
         \<and> CreateProgram \<notin> set (trace (onmessage e
               (CompilerRequestCompile rootNames (Some p) (Some c) bundle outFile)))
         \<and> Emit \<notin> set (trace (onmessage e
               (CompilerRequestCompile rootNames (Some p) (Some c) bundle outFile)))
         \<and> failure (onmessage e
               (CompilerRequestCompile rootNames (Some p) (Some c) bundle outFile)) = None
         \<and> last (trace (onmessage e
               (CompilerRequestCompile rootNames (Some p) (Some c) bundle outFile))) = WorkerClose"
proof -
  from assms have "configurationDiagnostics e bundle (Some c) (Some p) = ds"
    by (simp add: configurationDiagnostics_def configureStep_def case_prod_beta)
  with assms(3,5) show ?thesis
    by (simp add: onmessage_Compile_configured responses_append responses_configureEvents
          responses_compileRespond emit_configureEvents program_configureEvents
          compileRespond_def)
qed

text \<open>The statement at the configuration text that the example engine rejects.\<close>

theorem configuration_failure_short_circuits_witness:
  "''bad'' \<noteq> [] \<and> ''tsconfig.json'' \<noteq> []
   \<and> compileRoots (exampleEnv [] emitOk) [''/a.ts''] = Inr [''/a.ts'']
   \<and> processConfigureResponse (exampleEnv [] emitOk)
        (fst (configure (exampleEnv [] emitOk) (newHost (exampleEnv [] emitOk) None)
               ''tsconfig.json'' ''bad'')) ''tsconfig.json'' = Some [exampleDiagnostic 5023]
   \<and> responses (trace (onmessage (exampleEnv [] emitOk)
        (CompilerRequestCompile [''/a.ts''] (Some ''tsconfig.json'') (Some ''bad'') None None)))
       = [CompileResult True (Some (fromTypeScriptDiagnostic [exampleDiagnostic 5023]))]
   \<and> CreateProgram \<notin> set (trace (onmessage (exampleEnv [] emitOk)
        (CompilerRequestCompile [''/a.ts''] (Some ''tsconfig.json'') (Some ''bad'') None None)))
   \<and> Emit \<notin> set (trace (onmessage (exampleEnv [] emitOk)
        (CompilerRequestCompile [''/a.ts''] (Some ''tsconfig.json'') (Some ''bad'') None None)))"
proof -
  have h2: "''bad'' \<noteq> []" and h4: "''tsconfig.json'' \<noteq> []"
    by simp_all
  have r: "compileRoots (exampleEnv [] emitOk) [''/a.ts''] = Inr [''/a.ts'']"
    by (simp add: compileRoots_def example_defs)
  have h5: "processConfigureResponse (exampleEnv [] emitOk)
        (fst (configure (exampleEnv [] emitOk) (newHost (exampleEnv [] emitOk) None)
               ''tsconfig.json'' ''bad'')) ''tsconfig.json'' = Some [exampleDiagnostic 5023]"
    by (simp add: exampleEnv_def)
  have h6: "[exampleDiagnostic 5023] \<noteq> []"
    by simp
  from r h5 configuration_failure_short_circuits [OF h2 h4 r h5 h6, of None]
  show ?thesis by simp
qed

subsection \<open>A skipped emit\<close>

text \<open>
  [C5] For every \<open>RuntimeCompile\<close> request (its root names being resolved), if the
  engine's emit reports \<open>emitSkipped = true\<close> the handler stops at the assertion of line
  239 and posts no response. A \<open>Compile\<close> request is not subject to this: once its emit
  is invoked the run fails no assertion, whatever the emit reports, and the response
  carries the reported \<open>emitSkipped\<close> flag and diagnostics.
\<close>

theorem skipped_runtime_emit_is_fatal:
  "(runtimeRootNames e rootName sources = Inr resolvedNames
    \<and> emitSkipped (fst (emit e (runtimeProgram e resolvedNames bundle options')))
      \<longrightarrow> failure (onmessage e (CompilerRequestRuntimeCompile rootName sources bundle options'))
            = Some (AssertionError ''Unexpected skip of the emit.'')
          \<and> responses (trace (onmessage e
              (CompilerRequestRuntimeCompile rootName sources bundle options'))) = [])
   \<and> (Emit \<in> set (trace (onmessage e
              (CompilerRequestCompile rootNames configPath config bundle2 outFile)))
      \<longrightarrow> failure (onmessage e
              (CompilerRequestCompile rootNames configPath config bundle2 outFile)) = None
          \<and> (\<exists>roots emitResult.
                compileRoots e rootNames = Inr roots
                \<and> emitResult = fst (emit e
                      (compileEmitted e rootNames configPath config bundle2 roots))
                \<and> responses (trace (onmessage e
                      (CompilerRequestCompile rootNames configPath config bundle2 outFile)))
                    = [CompileResult (emitSkipped emitResult)
                         (if diagnostics emitResult \<noteq> []
                          then Some (fromTypeScriptDiagnostic (diagnostics emitResult))
                          else None)]))"
proof (intro conjI impI)
  assume "runtimeRootNames e rootName sources = Inr resolvedNames
    \<and> emitSkipped (fst (emit e (runtimeProgram e resolvedNames bundle options')))"
  then show "failure (onmessage e (CompilerRequestRuntimeCompile rootName sources bundle options'))
            = Some (AssertionError ''Unexpected skip of the emit.'')"
    and "responses (trace (onmessage e
              (CompilerRequestRuntimeCompile rootName sources bundle options'))) = []"
    by (simp_all add: onmessage_RuntimeCompile_skipped)
next
  let ?run = "onmessage e (CompilerRequestCompile rootNames configPath config bundle2 outFile)"
  assume emitted: "Emit \<in> set (trace ?run)"
  have "failure ?run = None
        \<and> (\<exists>roots emitResult.
              compileRoots e rootNames = Inr roots
              \<and> emitResult = fst (emit e
                    (compileEmitted e rootNames configPath config bundle2 roots))
              \<and> responses (trace ?run)
                  = [CompileResult (emitSkipped emitResult)
                       (if diagnostics emitResult \<noteq> []
                        then Some (fromTypeScriptDiagnostic (diagnostics emitResult))
                        else None)])"
  proof (cases "compileRoots e rootNames")
    case (Inl err)
    with emitted show ?thesis
      by (simp add: onmessage_Compile_rejected)
  next
    case (Inr roots)
    show ?thesis
    proof (cases rule: compileResolved_cases
        [where e = e and b = bundle2 and config = config and configPath = configPath
           and rootNames = rootNames and roots = roots])
      case configured
      with emitted Inr show ?thesis
        by (simp add: onmessage_Compile_configured emit_configureEvents compileRespond_def)
    next
      case reported
      with emitted Inr show ?thesis
        by (simp add: onmessage_Compile_reported emit_configureEvents compileRespond_def)
    next
      case asserted
      with emitted Inr show ?thesis
        by (simp add: onmessage_Compile_asserted emit_configureEvents)
    next
      case emitted
      with Inr show ?thesis
        by (simp add: onmessage_Compile_emitted responses_append responses_configureEvents
              responses_compileRespond)
    qed
  qed
  then show "failure ?run = None"
    and "\<exists>roots emitResult.
              compileRoots e rootNames = Inr roots
              \<and> emitResult = fst (emit e
                    (compileEmitted e rootNames configPath config bundle2 roots))
              \<and> responses (trace ?run)
                  = [CompileResult (emitSkipped emitResult)
                       (if diagnostics emitResult \<noteq> []
                        then Some (fromTypeScriptDiagnostic (diagnostics emitResult))
                        else None)]"
    by simp_all
qed

text \<open>Both halves at an engine whose emit reports a skip.\<close>

theorem skipped_runtime_emit_is_fatal_witness:
  "runtimeRootNames (exampleEnv [] emitRefused) ''/a.ts'' None = Inr [''/a.ts'']
   \<and> emitSkipped (fst (emit (exampleEnv [] emitRefused)
       (runtimeProgram (exampleEnv [] emitRefused) [''/a.ts''] None None)))
   \<and> failure (onmessage (exampleEnv [] emitRefused)
        (CompilerRequestRuntimeCompile ''/a.ts'' None None None))
       = Some (AssertionError ''Unexpected skip of the emit.'')
   \<and> responses (trace (onmessage (exampleEnv [] emitRefused)
        (CompilerRequestRuntimeCompile ''/a.ts'' None None None))) = []
   \<and> Emit \<in> set (trace (onmessage (exampleEnv [] emitRefused)
        (CompilerRequestCompile [''/a.ts''] None None None None)))
   \<and> failure (onmessage (exampleEnv [] emitRefused)
        (CompilerRequestCompile [''/a.ts''] None None None None)) = None
   \<and> responses (trace (onmessage (exampleEnv [] emitRefused)
        (CompilerRequestCompile [''/a.ts''] None None None None)))
       = [CompileResult True (Some (fromTypeScriptDiagnostic [exampleDiagnostic 4094]))]"
proof -
  have h0: "runtimeRootNames (exampleEnv [] emitRefused) ''/a.ts'' None = Inr [''/a.ts'']"
    by (simp add: runtimeRootNames_def example_defs)
  have h1: "emitSkipped (fst (emit (exampleEnv [] emitRefused)
       (runtimeProgram (exampleEnv [] emitRefused) [''/a.ts''] None None)))"
    by (simp add: exampleEnv_def emitRefused_def)
  have h2: "Emit \<in> set (trace (onmessage (exampleEnv [] emitRefused)
        (CompilerRequestCompile [''/a.ts''] None None None None)))"
    by (simp add: handler_defs example_defs)
  have h3: "fst (emit (exampleEnv [] emitRefused) program) = emitRefused" for program
    by (simp add: exampleEnv_def)
  have h4: "emitSkipped emitRefused" "diagnostics emitRefused = [exampleDiagnostic 4094]"
    by (simp_all add: emitRefused_def)
  from h0 h1 h2 h4 skipped_runtime_emit_is_fatal
    [of "exampleEnv [] emitRefused" "''/a.ts''" None "[''/a.ts'']" None None "[''/a.ts'']"
       None None None None]
  show ?thesis by (auto simp add: h3)
qed

subsection \<open>The response of a \<open>RuntimeCompile\<close>\<close>

text \<open>
  [C6] For every \<open>RuntimeCompile\<close> request (its root names being resolved), what is
  posted (nothing when the emit is skipped) is one two-element value: its first element
  is the translated items of the filtered pre-emit diagnostics, absent when there are
  none; its second element is \<open>emitBundle\<close> of the state after the emit when \<open>bundle\<close>
  is true and \<open>emitMap\<close> of that state otherwise. A request whose root names are not
  resolved is not answered.
\<close>

theorem runtime_response_shape:
  "(runtimeRootNames e rootName sources = Inr resolvedNames \<longrightarrow>
    responses (trace (onmessage e (CompilerRequestRuntimeCompile rootName sources bundle options')))
     = (if emitSkipped (fst (emit e (runtimeProgram e resolvedNames bundle options'))) then []
        else [RuntimeCompileResult
               (if runtimeDiagnostics e resolvedNames bundle options' = [] then None
                else Some (map parseDiagnostic
                       (runtimeDiagnostics e resolvedNames bundle options')))
               (if truthy_flag bundle
                then EmitBundleOut (emitBundle (runtimeState e resolvedNames sources bundle options'))
                else EmitMapOut (emitMap (runtimeState e resolvedNames sources bundle options')))]))
   \<and> (runtimeRootNames e rootName sources = Inl err \<longrightarrow>
    responses (trace (onmessage e
      (CompilerRequestRuntimeCompile rootName sources bundle options'))) = [])"
  by (simp add: onmessage_RuntimeCompile_skipped onmessage_RuntimeCompile_posted
        onmessage_RuntimeCompile_rejected
        runtimeResult_def fromTypeScriptDiagnostic_def Let_def)

text \<open>
  The statement at the request of the spec's end-to-end example, without and with
  \<open>bundle\<close>.
\<close>

theorem runtime_response_shape_witness:
  "runtimeRootNames (exampleEnv [] emitOk) ''/a.ts'' (Some [(''/a.ts'', ''export const x = 1;'')])
     = Inr [''/a.ts'']
   \<and> responses (trace (onmessage (exampleEnv [] emitOk)
      (CompilerRequestRuntimeCompile ''/a.ts'' (Some [(''/a.ts'', ''export const x = 1;'')])
         None None)))
     = [RuntimeCompileResult None (EmitMapOut (Some [''/a.js'' \<mapsto> ''export const x = 1;'']))]
   \<and> runtimeRootNames (exampleEnv [exampleDiagnostic 2322] emitOk) ''/a.ts''
        (Some [(''/a.ts'', ''export const x = 1;'')])
     = Inr [''/a.ts'']
   \<and> responses (trace (onmessage (exampleEnv [exampleDiagnostic 2322] emitOk)
      (CompilerRequestRuntimeCompile ''/a.ts'' (Some [(''/a.ts'', ''export const x = 1;'')])
         (Some True) None)))
     = [RuntimeCompileResult (Some [parseDiagnostic (exampleDiagnostic 2322)])
          (EmitBundleOut (Some ''export const x = 1;''))]"
proof -
  have r1: "runtimeRootNames (exampleEnv [] emitOk) ''/a.ts''
              (Some [(''/a.ts'', ''export const x = 1;'')]) = Inr [''/a.ts'']"
    by (simp add: runtimeRootNames_def example_defs)
  have r2: "runtimeRootNames (exampleEnv [exampleDiagnostic 2322] emitOk) ''/a.ts''
              (Some [(''/a.ts'', ''export const x = 1;'')]) = Inr [''/a.ts'']"
    by (simp add: runtimeRootNames_def example_defs)
  have s1: "emitMap (runtimeState (exampleEnv [] emitOk) [''/a.ts'']
              (Some [(''/a.ts'', ''export const x = 1;'')]) None None)
            = Some [''/a.js'' \<mapsto> ''export const x = 1;'']"
    by (simp add: handler_defs example_defs)
  have s2: "emitBundle (runtimeState (exampleEnv [exampleDiagnostic 2322] emitOk) [''/a.ts'']
              (Some [(''/a.ts'', ''export const x = 1;'')]) (Some True) None)
            = Some ''export const x = 1;''"
    by (simp add: handler_defs example_defs)
  have e1: "\<not> emitSkipped (fst (emit (exampleEnv [] emitOk) p))" for p
    by (simp add: example_defs)
  have e2: "\<not> emitSkipped (fst (emit (exampleEnv [exampleDiagnostic 2322] emitOk) p))" for p
    by (simp add: example_defs)
  have d1: "runtimeDiagnostics (exampleEnv [] emitOk) [''/a.ts''] None None = []"
    by (simp add: runtimeDiagnostics_def filterIgnored_def exampleEnv_def)
  have d2: "runtimeDiagnostics (exampleEnv [exampleDiagnostic 2322] emitOk) [''/a.ts'']
              (Some True) None
            = [exampleDiagnostic 2322]"
    by (simp add: runtimeDiagnostics_def filterIgnored_def exampleEnv_def exampleDiagnostic_def)
  show ?thesis
    using runtime_response_shape [of "exampleEnv [] emitOk" "''/a.ts''"
        "Some [(''/a.ts'', ''export const x = 1;'')]" "[''/a.ts'']" None None]
      runtime_response_shape [of "exampleEnv [exampleDiagnostic 2322] emitOk" "''/a.ts''"
        "Some [(''/a.ts'', ''export const x = 1;'')]" "[''/a.ts'']" "Some True" None]
    by (simp add: r1 r2 s1 s2 e1 e2 d1 d2 truthy_flag_def)
qed

text \<open>
  [C10] For every \<open>RuntimeCompile\<close> request (its root names being resolved) the
  engine's emit is invoked, whatever the pre-emit diagnostics are; when the filtered
  pre-emit diagnostics are non-empty (and the emit is not skipped) the posted response
  carries both their non-empty translated items and the emitted output selected by
  \<open>bundle\<close>.
\<close>

theorem runtime_emit_unconditional:
  "runtimeRootNames e rootName sources = Inr resolvedNames \<longrightarrow>
   Emit \<in> set (trace (onmessage e
      (CompilerRequestRuntimeCompile rootName sources bundle options')))
   \<and> (runtimeDiagnostics e resolvedNames bundle options' \<noteq> []
       \<and> \<not> emitSkipped (fst (emit e (runtimeProgram e resolvedNames bundle options')))
      \<longrightarrow> (\<exists>its out.
             responses (trace (onmessage e
               (CompilerRequestRuntimeCompile rootName sources bundle options')))
               = [RuntimeCompileResult (Some its) out]
             \<and> its = map parseDiagnostic (runtimeDiagnostics e resolvedNames bundle options')
             \<and> its \<noteq> []
             \<and> out = (if truthy_flag bundle
                      then EmitBundleOut
                             (emitBundle (runtimeState e resolvedNames sources bundle options'))
                      else EmitMapOut
                             (emitMap (runtimeState e resolvedNames sources bundle options')))))"
  by (cases "emitSkipped (fst (emit e (runtimeProgram e resolvedNames bundle options')))")
     (simp_all add: onmessage_RuntimeCompile_skipped onmessage_RuntimeCompile_posted
        runtimeResult_def fromTypeScriptDiagnostic_def Let_def)

text \<open>
  The statement at a program with two pre-emit diagnostics, one of them ignored: the
  other one and the emitted file are both in the response.
\<close>

theorem runtime_emit_unconditional_witness:
  "runtimeRootNames (exampleEnv [exampleDiagnostic 2322, exampleDiagnostic 2691] emitOk)
     ''/a.ts'' None = Inr [''/a.ts'']
   \<and> runtimeDiagnostics (exampleEnv [exampleDiagnostic 2322, exampleDiagnostic 2691] emitOk)
     [''/a.ts''] None None = [exampleDiagnostic 2322]
   \<and> \<not> emitSkipped (fst (emit (exampleEnv [exampleDiagnostic 2322, exampleDiagnostic 2691] emitOk)
        (runtimeProgram (exampleEnv [exampleDiagnostic 2322, exampleDiagnostic 2691] emitOk)
           [''/a.ts''] None None)))
   \<and> Emit \<in> set (trace (onmessage (exampleEnv [exampleDiagnostic 2322, exampleDiagnostic 2691] emitOk)
        (CompilerRequestRuntimeCompile ''/a.ts'' None None None)))
   \<and> responses (trace (onmessage (exampleEnv [exampleDiagnostic 2322, exampleDiagnostic 2691] emitOk)
        (CompilerRequestRuntimeCompile ''/a.ts'' None None None)))
      = [RuntimeCompileResult (Some [parseDiagnostic (exampleDiagnostic 2322)])
           (EmitMapOut (Some [''/a.js'' \<mapsto> ''export const x = 1;'']))]"
proof -
  let ?e = "exampleEnv [exampleDiagnostic 2322, exampleDiagnostic 2691] emitOk"
  have r: "runtimeRootNames ?e ''/a.ts'' None = Inr [''/a.ts'']"
    by (simp add: runtimeRootNames_def example_defs)
  have d: "runtimeDiagnostics ?e [''/a.ts''] None None = [exampleDiagnostic 2322]"
    by (simp add: runtimeDiagnostics_def filterIgnored_def exampleEnv_def exampleDiagnostic_def)
  have k: "\<not> emitSkipped (fst (emit ?e (runtimeProgram ?e [''/a.ts''] None None)))"
    by (simp add: example_defs)
  have s: "emitMap (runtimeState ?e [''/a.ts''] None None None)
             = Some [''/a.js'' \<mapsto> ''export const x = 1;'']"
    by (simp add: handler_defs example_defs)
  from r d k s runtime_emit_unconditional [of ?e "''/a.ts''" None "[''/a.ts'']" None None]
  show ?thesis by (simp add: truthy_flag_def)
qed

subsection \<open>Ignored diagnostics\<close>

lemma filterIgnored_idem: "filterIgnored e (filterIgnored e ds) = filterIgnored e ds"
  by (simp add: filterIgnored_def)

lemma filterIgnored_codes: "d \<in> set (filterIgnored e ds) \<Longrightarrow> code d \<notin> set (ignoredDiagnostics e)"
  by (simp add: filterIgnored_def)

lemma responseCodes_filtered:
  "c \<in> set (map itemCode (items (fromTypeScriptDiagnostic (filterIgnored e ds)))) \<Longrightarrow>
   c \<notin> set (ignoredDiagnostics e)"
  by (auto simp add: fromTypeScriptDiagnostic_def parseDiagnostic_def filterIgnored_def)

text \<open>
  [C3 as stated fails] Only the pre-emit diagnostics pass the filter of lines 146 to 148.
  The diagnostics of the emit result (line 163) are posted as they are: here the emit
  reports code 5055, which is in the ignored set, and the response of the \<open>Compile\<close>
  request carries it.
\<close>

theorem emit_diagnostics_unfiltered:
  "5055 \<in> set (ignoredDiagnostics (exampleEnv [] emitComplaining))
   \<and> map responseCodes (responses (trace (onmessage (exampleEnv [] emitComplaining)
        (CompilerRequestCompile [''/a.ts''] None None None None)))) = [[5055]]"
  by (simp add: handler_defs example_defs)

text \<open>
  [C3, amended] Filtering by the ignored-diagnostics code set is a function of its input
  and idempotent, and no diagnostic that passed it has an ignored code. No diagnostic
  whose code is in the ignored set appears in any response to a \<open>RuntimeCompile\<close>
  request, nor in the response to a \<open>Compile\<close> request that reports pre-emit
  diagnostics.
\<close>

theorem ignored_codes_filtered:
  "filterIgnored e (filterIgnored e ds) = filterIgnored e ds
   \<and> (\<forall>d \<in> set (filterIgnored e ds). code d \<notin> set (ignoredDiagnostics e))
   \<and> (\<forall>r \<in> set (responses (trace (onmessage e
              (CompilerRequestRuntimeCompile rootName sources bundle options')))).
        \<forall>c \<in> set (responseCodes r). c \<notin> set (ignoredDiagnostics e))
   \<and> (configurationDiagnostics e bundle2 config configPath = []
       \<and> compileDiagnostics e rootNames configPath config bundle2 \<noteq> []
      \<longrightarrow> (\<forall>r \<in> set (responses (trace (onmessage e
                   (CompilerRequestCompile rootNames configPath config bundle2 outFile)))).
             \<forall>c \<in> set (responseCodes r). c \<notin> set (ignoredDiagnostics e)))"
proof (intro conjI impI)
  show "filterIgnored e (filterIgnored e ds) = filterIgnored e ds"
    by (rule filterIgnored_idem)
next
  show "\<forall>d \<in> set (filterIgnored e ds). code d \<notin> set (ignoredDiagnostics e)"
    by (simp add: filterIgnored_codes)
next
  show "\<forall>r \<in> set (responses (trace (onmessage e
              (CompilerRequestRuntimeCompile rootName sources bundle options')))).
        \<forall>c \<in> set (responseCodes r). c \<notin> set (ignoredDiagnostics e)"
  proof (cases "runtimeRootNames e rootName sources")
    case (Inl err)
    then show ?thesis by (simp add: onmessage_RuntimeCompile_rejected)
  next
    case (Inr resolvedNames)
    let ?ds = "runtimeDiagnostics e resolvedNames bundle options'"
    have codes: "c \<notin> set (ignoredDiagnostics e)"
      if "c \<in> set (map itemCode (items (fromTypeScriptDiagnostic ?ds)))" for c
      using that unfolding runtimeDiagnostics_def by (rule responseCodes_filtered)
    show ?thesis
    proof (cases "emitSkipped (fst (emit e (runtimeProgram e resolvedNames bundle options')))")
      case True
      with Inr show ?thesis by (simp add: onmessage_RuntimeCompile_skipped)
    next
      case False
      with Inr show ?thesis
        using codes by (simp add: onmessage_RuntimeCompile_posted runtimeResult_def Let_def)
    qed
  qed
next
  let ?ds = "compileDiagnostics e rootNames configPath config bundle2"
  assume h: "configurationDiagnostics e bundle2 config configPath = [] \<and> ?ds \<noteq> []"
  have codes: "c \<notin> set (ignoredDiagnostics e)"
    if "c \<in> set (map itemCode (items (fromTypeScriptDiagnostic ?ds)))" for c
    using that unfolding compileDiagnostics_def by (rule responseCodes_filtered)
  show "\<forall>r \<in> set (responses (trace (onmessage e
                   (CompilerRequestCompile rootNames configPath config bundle2 outFile)))).
             \<forall>c \<in> set (responseCodes r). c \<notin> set (ignoredDiagnostics e)"
  proof (cases "compileRoots e rootNames")
    case (Inl err)
    then show ?thesis by (simp add: onmessage_Compile_rejected)
  next
    case (Inr roots)
    with h show ?thesis
      using codes
      by (simp add: onmessage_Compile_reported responses_append responses_configureEvents
            responses_compileRespond)
  qed
qed

text \<open>The statement at a program with one ignored and one other diagnostic.\<close>

theorem ignored_codes_filtered_witness:
  "filterIgnored (exampleEnv [] emitOk) [exampleDiagnostic 2322, exampleDiagnostic 2691]
     = [exampleDiagnostic 2322]
   \<and> map responseCodes (responses (trace (onmessage
        (exampleEnv [exampleDiagnostic 2691, exampleDiagnostic 2322] emitOk)
        (CompilerRequestRuntimeCompile ''/a.ts'' None None None)))) = [[2322]]
   \<and> configurationDiagnostics (exampleEnv [exampleDiagnostic 2691, exampleDiagnostic 2322] emitOk)
        None None None = []
   \<and> compileDiagnostics (exampleEnv [exampleDiagnostic 2691, exampleDiagnostic 2322] emitOk)
        [''/a.ts''] None None None \<noteq> []
   \<and> map responseCodes (responses (trace (onmessage
        (exampleEnv [exampleDiagnostic 2691, exampleDiagnostic 2322] emitOk)
        (CompilerRequestCompile [''/a.ts''] None None None None)))) = [[2322]]
   \<and> 2322 \<notin> set (ignoredDiagnostics
        (exampleEnv [exampleDiagnostic 2691, exampleDiagnostic 2322] emitOk))"
proof -
  let ?e = "exampleEnv [exampleDiagnostic 2691, exampleDiagnostic 2322] emitOk"
  have h1: "filterIgnored (exampleEnv [] emitOk) [exampleDiagnostic 2322, exampleDiagnostic 2691]
     = [exampleDiagnostic 2322]"
    by (simp add: filterIgnored_def example_defs)
  have h2: "map responseCodes (responses (trace (onmessage ?e
        (CompilerRequestRuntimeCompile ''/a.ts'' None None None)))) = [[2322]]"
    by (simp add: handler_defs example_defs)
  have h3: "configurationDiagnostics ?e None None None = []"
    by (simp add: handler_defs example_defs)
  have h4: "compileDiagnostics ?e [''/a.ts''] None None None \<noteq> []"
    by (simp add: handler_defs example_defs)
  have h5: "responses (trace (onmessage ?e
        (CompilerRequestCompile [''/a.ts''] None None None None)))
      = [CompileResult True (Some \<lparr>items = [parseDiagnostic (exampleDiagnostic 2322)]\<rparr>)]"
    by (simp add: handler_defs example_defs)
  have h6: "responseCodes
      (CompileResult True (Some \<lparr>items = [parseDiagnostic (exampleDiagnostic 2322)]\<rparr>))
      = [2322]"
    by (simp add: parseDiagnostic_def exampleDiagnostic_def)
  have c: "itemCode (parseDiagnostic (exampleDiagnostic 2322)) = 2322"
    by (simp add: parseDiagnostic_def exampleDiagnostic_def)
  from h3 h4
    ignored_codes_filtered [of ?e "[]" "''/a.ts''" None None None None None None "[''/a.ts'']" None]
  have "2322 \<notin> set (ignoredDiagnostics ?e)"
    by (simp add: h5 c)
  with h1 h2 h3 h4 h5 h6 show ?thesis
    by simp
qed

subsection \<open>Merging compiler options\<close>

lemma Object_assign_snoc: "Object_assign target (srcs @ [src]) = Object_assign target srcs ++ src"
  by (simp add: Object_assign_def)

lemma programOptions_runtimeProgram:
  "programOptions (runtimeProgram e rootNames bundle options') =
     Object_assign (host_options (newHost e bundle)) (runtimeCompilerOptions e options' bundle)"
  by (simp add: runtimeProgram_def Let_def createProgram_def setRootExports_def
        getCompilationSettings_def mergeOptions_def)

text \<open>
  [C8] Merging is a left-to-right overwrite per key over the list of fragments: the
  last fragment decides every key it sets, and every other key is as the merge of the
  fragments before it left it; so of two fragments the later one overrides a key both
  set, and a key set in one of them only survives. In a \<open>RuntimeCompile\<close> with
  \<open>bundle\<close> true the bundler fragment is last: the program's options have the bundler's
  value at each of its keys, whatever the caller's overrides say. The
  \<open>Object.assign\<close> of a \<open>RuntimeTranspile\<close> lets the caller's options override the
  defaults per key.
\<close>

theorem options_merge_left_to_right:
  "getCompilationSettings (mergeOptions host (fragments @ [later])) k =
     (case later k of
        Some v \<Rightarrow> Some v
      | None \<Rightarrow> getCompilationSettings (mergeOptions host fragments) k)
   \<and> getCompilationSettings (mergeOptions host [earlier, later]) k =
       (case later k of
          Some v \<Rightarrow> Some v
        | None \<Rightarrow> (case earlier k of Some v \<Rightarrow> Some v | None \<Rightarrow> host_options host k))
   \<and> (truthy_flag bundle \<and> defaultBundlerOptions e k = Some v
        \<longrightarrow> programOptions (runtimeProgram e rootNames bundle options') k = Some v)
   \<and> (s \<noteq> []
        \<longrightarrow> transpileOptions e (Some s) k =
             (case convertCompilerOptions e s k of
                Some v \<Rightarrow> Some v
              | None \<Rightarrow> defaultTranspileOptions e k))"
proof (intro conjI impI)
  show "getCompilationSettings (mergeOptions host (fragments @ [later])) k =
     (case later k of
        Some v \<Rightarrow> Some v
      | None \<Rightarrow> getCompilationSettings (mergeOptions host fragments) k)"
    by (simp add: getCompilationSettings_def mergeOptions_def Object_assign_snoc map_add_def
          split: option.splits)
next
  show "getCompilationSettings (mergeOptions host [earlier, later]) k =
       (case later k of
          Some v \<Rightarrow> Some v
        | None \<Rightarrow> (case earlier k of Some v \<Rightarrow> Some v | None \<Rightarrow> host_options host k))"
    by (simp add: getCompilationSettings_def mergeOptions_def Object_assign_def map_add_def
          split: option.splits)
next
  assume "truthy_flag bundle \<and> defaultBundlerOptions e k = Some v"
  then show "programOptions (runtimeProgram e rootNames bundle options') k = Some v"
    by (simp add: programOptions_runtimeProgram runtimeCompilerOptions_def Object_assign_def
          map_add_def)
next
  assume "s \<noteq> []"
  then show "transpileOptions e (Some s) k =
             (case convertCompilerOptions e s k of
                Some v \<Rightarrow> Some v
              | None \<Rightarrow> defaultTranspileOptions e k)"
    by (simp add: transpileOptions_def Object_assign_def map_add_def split: option.splits)
qed

text \<open>
  The examples of the spec: \<open>strict: true\<close> then \<open>strict: false\<close> gives \<open>false\<close>; a
  caller's \<open>module: commonjs\<close> does not change the bundler's \<open>module: amd\<close>.
\<close>

theorem options_merge_left_to_right_witness:
  "getCompilationSettings (mergeOptions \<lparr>host_options = Map.empty\<rparr>
      [[''strict'' \<mapsto> ''true''], [''strict'' \<mapsto> ''false'']]) ''strict'' = Some ''false''
   \<and> truthy_flag (Some True)
   \<and> defaultBundlerOptions (exampleEnv [] emitOk) ''module'' = Some ''amd''
   \<and> convertCompilerOptions (exampleEnv [] emitOk) ''commonjs'' ''module'' = Some ''commonjs''
   \<and> programOptions (runtimeProgram (exampleEnv [] emitOk) [''/a.ts''] (Some True)
        (Some ''commonjs'')) ''module'' = Some ''amd''
   \<and> transpileOptions (exampleEnv [] emitOk) (Some ''commonjs'') ''module'' = Some ''commonjs''
   \<and> transpileOptions (exampleEnv [] emitOk) (Some ''commonjs'') ''esModuleInterop''
       = Some ''true''"
proof -
  have h1: "truthy_flag (Some True)"
    by (simp add: truthy_flag_def)
  have h2: "defaultBundlerOptions (exampleEnv [] emitOk) ''module'' = Some ''amd''"
    by (simp add: exampleEnv_def)
  have h3: "convertCompilerOptions (exampleEnv [] emitOk) ''commonjs'' ''module''
              = Some ''commonjs''"
    "convertCompilerOptions (exampleEnv [] emitOk) ''commonjs'' ''esModuleInterop'' = None"
    by (simp_all add: exampleEnv_def)
  have h4: "defaultTranspileOptions (exampleEnv [] emitOk) ''esModuleInterop'' = Some ''true''"
    by (simp add: exampleEnv_def)
  have h5: "''commonjs'' \<noteq> []"
    by simp
  from h1 h2 h3 h4 h5
    options_merge_left_to_right [of "\<lparr>host_options = Map.empty\<rparr>" "[[''strict'' \<mapsto> ''true'']]"
      "[''strict'' \<mapsto> ''false'']" "''strict''" "[''strict'' \<mapsto> ''true'']" "Some True"
      "exampleEnv [] emitOk" "''amd''" "[''/a.ts'']" "Some ''commonjs''" "''commonjs''"]
    options_merge_left_to_right [of "\<lparr>host_options = Map.empty\<rparr>" "[]" Map.empty "''module''"
      Map.empty "Some True" "exampleEnv [] emitOk" "''amd''" "[''/a.ts'']"
      "Some ''commonjs''" "''commonjs''"]
    options_merge_left_to_right [of "\<lparr>host_options = Map.empty\<rparr>" "[]" Map.empty
      "''esModuleInterop''" Map.empty "Some True" "exampleEnv [] emitOk" "''amd''" "[''/a.ts'']"
      "Some ''commonjs''" "''commonjs''"]
  show ?thesis by simp
qed

subsection \<open>The result of a \<open>RuntimeTranspile\<close>\<close>

text \<open>
  What the loop leaves in \<open>result\<close>: an own property for every file name of the
  sources except \<open>__proto__\<close>.
\<close>

lemma dom_transpileLoop:
  "dom (transpileLoop e opts entries result)
     = dom result \<union> (fst ` set entries - {''__proto__''})"
proof (induction entries arbitrary: result)
  case Nil
  then show ?case by simp
next
  case (Cons entry entries)
  obtain name inputText where entry: "entry = (name, inputText)"
    by (cases entry)
  show ?case
    by (auto simp add: entry Cons.IH Let_def setProperty_def)
qed

lemma untouched_transpileLoop:
  "name \<notin> fst ` set entries \<Longrightarrow>
   transpileLoop e opts entries result name = result name"
proof (induction entries arbitrary: result)
  case Nil
  then show ?case by simp
next
  case (Cons entry entries)
  obtain name' inputText where entry: "entry = (name', inputText)"
    by (cases entry)
  from Cons.prems show ?case
    by (auto simp add: entry Let_def Cons.IH setProperty_def)
qed

lemma entry_transpileLoop:
  "distinct (map fst entries) \<Longrightarrow> (name, inputText) \<in> set entries \<Longrightarrow>
   name \<noteq> ''__proto__'' \<Longrightarrow>
   transpileLoop e opts entries result name =
     Some \<lparr>source = outputText (transpileModule e inputText name opts),
           map_text = sourceMapText (transpileModule e inputText name opts)\<rparr>"
proof (induction entries arbitrary: result)
  case Nil
  then show ?case by simp
next
  case (Cons entry entries)
  obtain name' inputText' where entry: "entry = (name', inputText')"
    by (cases entry)
  show ?case
  proof (cases "(name, inputText) = entry")
    case True
    with Cons.prems entry have "name \<notin> fst ` set entries"
      by auto
    with True entry Cons.prems(3) show ?thesis
      by (simp add: Let_def untouched_transpileLoop setProperty_def)
  next
    case False
    with Cons.prems have "distinct (map fst entries)" and "(name, inputText) \<in> set entries"
      by auto
    with Cons.prems(3) show ?thesis
      by (simp add: entry Let_def Cons.IH)
  qed
qed

lemma proto_transpileLoop:
  "result ''__proto__'' = None \<Longrightarrow>
   transpileLoop e opts entries result ''__proto__'' = None"
proof (induction entries arbitrary: result)
  case Nil
  then show ?case by simp
next
  case (Cons entry entries)
  obtain name inputText where entry: "entry = (name, inputText)"
    by (cases entry)
  from Cons.prems show ?case
    by (simp add: entry Let_def Cons.IH setProperty_def)
qed

text \<open>
  The run of a \<open>RuntimeTranspile\<close> request: one mapping is posted, and the worker is
  closed. The mapping has an entry for every file name of the sources other than
  \<open>__proto__\<close>, and for no other name; the entry of such a file has the engine's output
  text for that file's input as its \<open>source\<close>. The file name \<open>__proto__\<close> has no entry.
\<close>

lemma transpile_posted:
  "onmessage e (CompilerRequestRuntimeTranspile sources options') =
     \<lparr>trace = map (\<lambda>entry. TranspileModule (fst entry)) sources
                @ [PostMessage (RuntimeTranspileResult
                     (transpileLoop e (transpileOptions e options') sources Map.empty)),
                   WorkerClose],
      failure = None\<rparr>"
  by (simp add: onmessage_def handleRuntimeTranspile_def)

lemma transpile_responses:
  "responses (trace (onmessage e (CompilerRequestRuntimeTranspile sources options'))) =
     [RuntimeTranspileResult (transpileLoop e (transpileOptions e options') sources Map.empty)]"
  by (simp add: transpile_posted responses_append responses_transpileEvents)

lemma transpile_entries:
  "dom (transpileLoop e (transpileOptions e options') sources Map.empty)
     = fst ` set sources - {''__proto__''}
   \<and> transpileLoop e (transpileOptions e options') sources Map.empty ''__proto__'' = None
   \<and> (distinct (map fst sources) \<longrightarrow>
        (\<forall>(name, inputText) \<in> set sources.
           name \<noteq> ''__proto__'' \<longrightarrow>
           transpileLoop e (transpileOptions e options') sources Map.empty name =
             Some \<lparr>source = outputText (transpileModule e inputText name
                                (transpileOptions e options')),
                   map_text = sourceMapText (transpileModule e inputText name
                                (transpileOptions e options'))\<rparr>))"
proof (intro conjI impI)
  show "dom (transpileLoop e (transpileOptions e options') sources Map.empty)
          = fst ` set sources - {''__proto__''}"
    by (simp add: dom_transpileLoop)
next
  show "transpileLoop e (transpileOptions e options') sources Map.empty ''__proto__'' = None"
    by (simp add: proto_transpileLoop)
next
  assume d: "distinct (map fst sources)"
  show "\<forall>(name, inputText) \<in> set sources.
           name \<noteq> ''__proto__'' \<longrightarrow>
           transpileLoop e (transpileOptions e options') sources Map.empty name =
             Some \<lparr>source = outputText (transpileModule e inputText name
                                (transpileOptions e options')),
                   map_text = sourceMapText (transpileModule e inputText name
                                (transpileOptions e options'))\<rparr>"
    using d entry_transpileLoop [of sources _ _ e "transpileOptions e options'" Map.empty]
    by blast
qed

text \<open>
  [C9, the code at the failing input] The sources have the two file names \<open>/a.ts\<close> and
  \<open>__proto__\<close> (an own key of an object parsed from a message). The engine is called
  for both files, but the assignment of line 279 for the file \<open>__proto__\<close> replaces the
  prototype of \<open>result\<close> and adds no entry: the posted mapping has the one entry of
  \<open>/a.ts\<close>, where the claim has one entry per file name of the sources.
\<close>

theorem transpile_proto_entry_missing:
  "onmessage (exampleEnv [] emitOk)
     (CompilerRequestRuntimeTranspile [(''/a.ts'', ''let a''), (''__proto__'', ''let b'')] None)
   = \<lparr>trace = [TranspileModule ''/a.ts'', TranspileModule ''__proto__'',
                PostMessage (RuntimeTranspileResult
                  [''/a.ts'' \<mapsto> \<lparr>source = ''let a'', map_text = None\<rparr>]),
                WorkerClose],
      failure = None\<rparr>"
  by (simp add: onmessage_def handleRuntimeTranspile_def setProperty_def exampleEnv_def)

end
